theory Spec2Isabelle
  imports Main "HOL-Library.Word"
begin

unbundle bit_operations_syntax

section \<open>libivee: guest construction and the call primitive (src/libivee.c)\<close>

text \<open>
  A shallow embedding of \<^verbatim>\<open>src/libivee.c\<close>. Each C function of that file is a HOL
  function of the same name. Mutable objects are passed in and returned updated; a pointer
  that may be NULL is an \<open>option\<close>; an \<open>int\<close> status is an \<open>int\<close>; a
  \<open>uint64_t\<close> is a \<open>64 word\<close>. Everything the file calls but does not define
  (libc, libelf, the KVM layer \<^verbatim>\<open>kvm.h\<close>, the memory map \<^verbatim>\<open>memory.h\<close>)
  is answered by an environment record \<open>env\<close>, or modelled from the specification where
  the behaviour matters; such definitions say so.
\<close>

subsection \<open>Machine types and constants\<close>

type_synonym u8 = "8 word"
type_synonym u16 = "16 word"
type_synonym u32 = "32 word"
type_synonym u64 = "64 word"

text \<open>Linux \<^verbatim>\<open>errno.h\<close> values.\<close>

definition EIO :: int where "EIO = 5"
definition ENXIO :: int where "ENXIO = 6"
definition ENOMEM :: int where "ENOMEM = 12"
definition EINVAL :: int where "EINVAL = 22"
definition ENOTSUP :: int where "ENOTSUP = 95"

text \<open>
  Modelled from the spec: \<^verbatim>\<open>x86.h\<close> is not part of the sources at hand. Pages are
  4 KiB, a page holds 512 eight-byte entries, and PRESENT, RW and NX are the architectural
  bits 0, 1 and 63 of a page-table entry.
\<close>

definition X86_PAGE_SHIFT :: nat where "X86_PAGE_SHIFT = 12"
definition X86_PAGE_SIZE :: u64 where "X86_PAGE_SIZE = 0x1000"
definition X86_PTES_PER_PAGE :: nat where "X86_PTES_PER_PAGE = 512"
definition X86_PTE_PRESENT :: u64 where "X86_PTE_PRESENT = 0x1"
definition X86_PTE_RW :: u64 where "X86_PTE_RW = 0x2"
definition X86_PTE_NX :: u64 where "X86_PTE_NX = 0x8000000000000000"

text \<open>The macros of lines 99-105.\<close>

definition IVEE_GUEST_MEMORY_SIZE :: u64 where
  "IVEE_GUEST_MEMORY_SIZE = 0x40000000"

definition IVEE_GUEST_PAGES_COUNT :: nat where
  "IVEE_GUEST_PAGES_COUNT = unat (drop_bit X86_PAGE_SHIFT IVEE_GUEST_MEMORY_SIZE)"

definition IVEE_PAGE_TABLE_SIZE :: u64 where
  "IVEE_PAGE_TABLE_SIZE = X86_PAGE_SIZE * 515"

definition IVEE_PML4_BASE_GPA :: u64 where
  "IVEE_PML4_BASE_GPA = IVEE_GUEST_MEMORY_SIZE - IVEE_PAGE_TABLE_SIZE"

definition IVEE_PDPE_BASE_GPA :: u64 where
  "IVEE_PDPE_BASE_GPA = IVEE_PML4_BASE_GPA + X86_PAGE_SIZE"

definition IVEE_PDE_BASE_GPA :: u64 where
  "IVEE_PDE_BASE_GPA = IVEE_PDPE_BASE_GPA + X86_PAGE_SIZE"

definition IVEE_PTE_BASE_GPA :: u64 where
  "IVEE_PTE_BASE_GPA = IVEE_PDE_BASE_GPA + X86_PAGE_SIZE"

subsection \<open>Regions, the memory map and the host\<close>

text \<open>
  Modelled from the spec: the protection of a region is a subset of READ, WRITE, EXEC
  (\<^verbatim>\<open>memory.h\<close> is absent, so the numeric values of the flags are not known).
  \<open>prot & IVEE_WRITE\<close> is membership, \<open>|\<close> is union.
\<close>

datatype ivee_prot = IVEE_READ | IVEE_WRITE | IVEE_EXEC

text \<open>
  \<open>struct ivee_guest_memory_region\<close>, with the four fields libivee.c reads.
  \<open>hva\<close> is the base address of the host mapping that backs the region.
\<close>

record region =
  first_gfn :: u64
  last_gfn :: u64
  hva :: nat
  prot :: "ivee_prot set"

text \<open>\<open>struct ivee_memory_map\<close>: the list of regions, in list order.\<close>

type_synonym memory_map = "region list"

text \<open>
  The part of the host that the library acts on: \<open>errno\<close>; the live allocations of
  \<open>ivee_zalloc\<close>; the live VM handles; the live host mappings (by base address); the
  contents of host mappings, as arrays of 64-bit words indexed from the base; and the
  number of guest entries made so far.
\<close>

record world =
  errno :: int
  heap :: "nat list"
  vms :: "nat list"
  host_maps :: "nat list"
  hmem :: "nat \<Rightarrow> nat \<Rightarrow> u64"
  run_count :: nat

text \<open>
  Modelled from the spec: the boot CPU image \<open>struct x86_cpu_state\<close> and its
  segments (\<^verbatim>\<open>x86.h\<close> is absent). The fields are the ones libivee.c assigns;
  the segment type and flag macros have unknown values and are kept symbolic, a set of
  names standing for their bitwise OR.
\<close>

datatype x86_seg_type =
  X86_SEG_TYPE_CODE | X86_SEG_TYPE_DATA | X86_SEG_TYPE_ACC | X86_SEG_TYPE_TSS32 | X86_SEG_TYPE_LDT

datatype x86_seg_flag = X86_SEG_S | X86_SEG_P | X86_SEG_G | X86_SEG_L | X86_SEG_DB

record x86_segment =
  base :: u64
  limit :: u32
  selector :: u16
  type :: "x86_seg_type set"
  dpl :: u8
  flags :: "x86_seg_flag set"

record x86_cpu_state =
  rax :: u64
  rbx :: u64
  rcx :: u64
  rdx :: u64
  rsi :: u64
  rdi :: u64
  rsp :: u64
  rbp :: u64
  r8 :: u64
  r9 :: u64
  r10 :: u64
  r11 :: u64
  r12 :: u64
  r13 :: u64
  r14 :: u64
  r15 :: u64
  rip :: u64
  rflags :: u64
  cs :: x86_segment
  ds :: x86_segment
  ss :: x86_segment
  es :: x86_segment
  fs :: x86_segment
  gs :: x86_segment
  tr :: x86_segment
  ldt :: x86_segment
  cr0 :: u64
  cr3 :: u64
  cr4 :: u64
  efer :: u64

text \<open>
  \<open>struct ivee_arch_state\<close> of the public header: the fifteen registers that
  \<open>load_vcpu_state\<close> reads from it. Its fields carry the prefix \<open>st_\<close>, the
  plain names being those of \<open>x86_cpu_state\<close>.
\<close>

record ivee_arch_state =
  st_rax :: u64
  st_rbx :: u64
  st_rcx :: u64
  st_rdx :: u64
  st_rsi :: u64
  st_rdi :: u64
  st_rbp :: u64
  st_r8 :: u64
  st_r9 :: u64
  st_r10 :: u64
  st_r11 :: u64
  st_r12 :: u64
  st_r13 :: u64
  st_r14 :: u64
  st_r15 :: u64

text \<open>
  Modelled from the spec: an exit record carries a reason (I/O, MMIO, HLT, shutdown,
  internal error) and, for I/O, port, direction, size and data (\<^verbatim>\<open>kvm.h\<close> is
  absent). libivee.c reads the reason and the port only.
\<close>

datatype ivee_exit_reason =
  IVEE_EXIT_IO | IVEE_EXIT_MMIO | IVEE_EXIT_HLT | IVEE_EXIT_SHUTDOWN | IVEE_EXIT_INTERNAL_ERROR

record ivee_pio_exit =
  port :: u16
  is_write :: bool
  op_size :: u8
  data :: u32

record ivee_exit =
  exit_reason :: ivee_exit_reason
  io :: ivee_pio_exit

text \<open>What libelf reports of the file: the fields of the headers that libivee.c reads.\<close>

datatype Elf_Kind = ELF_K_NONE | ELF_K_AR | ELF_K_COFF | ELF_K_ELF

record GElf_Ehdr =
  e_type :: u16
  e_machine :: u16
  e_entry :: u64
  e_phnum :: u16

record GElf_Phdr =
  p_type :: u32
  p_flags :: u32
  p_offset :: u64
  p_vaddr :: u64
  p_filesz :: u64
  p_memsz :: u64

definition EV_NONE :: nat where "EV_NONE = 0"
definition ELFCLASS64 :: nat where "ELFCLASS64 = 2"
definition ET_EXEC :: u16 where "ET_EXEC = 2"
definition ET_DYN :: u16 where "ET_DYN = 3"
definition EM_X86_64 :: u16 where "EM_X86_64 = 62"
definition PT_LOAD :: u32 where "PT_LOAD = 1"
definition PF_X :: u32 where "PF_X = 1"
definition PF_W :: u32 where "PF_W = 2"
definition PF_R :: u32 where "PF_R = 4"

text \<open>
  The environment: the answer of every external call. \<open>IVEE_PIO_EXIT_PORT\<close> is the
  port constant of the public header, absent here and so a parameter. A failing system
  call stores \<open>sys_errno\<close> in \<open>errno\<close>. \<open>host_alloc gpa\<close> is the base of the host
  mapping obtained for a region placed at \<open>gpa\<close>, or None when the host refuses.
  \<open>pread_res count offset\<close> is the value \<open>pread\<close> returns and
  \<open>pread_image count offset\<close> the contents of the buffer after it. \<open>kvm_run_res n\<close> is
  the status and exit record of the n-th guest entry. \<open>vcpu_after\<close> is the CPU image
  that \<open>ivee_kvm_store_vcpu_state\<close> reads back from the vCPU.
\<close>

record env =
  IVEE_PIO_EXIT_PORT :: u16
  zalloc_res :: "nat option"
  init_kvm_res :: int
  create_kvm_vm_res :: "nat option"
  init_memory_map_res :: int
  access_res :: int
  stat_res :: int
  st_size :: u64
  open_res :: int
  sys_errno :: int
  host_alloc :: "u64 \<Rightarrow> nat option"
  file_image :: "nat \<Rightarrow> u64"
  elf_version_res :: nat
  elf_begin_res :: bool
  elf_kind_res :: Elf_Kind
  elf_errno_res :: int
  getehdr_res :: "GElf_Ehdr option"
  getclass_res :: nat
  getphdr_res :: "nat \<Rightarrow> GElf_Phdr option"
  pread_res :: "u64 \<Rightarrow> u64 \<Rightarrow> int"
  pread_image :: "u64 \<Rightarrow> u64 \<Rightarrow> nat \<Rightarrow> u64"
  set_kvm_memory_map_res :: "memory_map \<Rightarrow> int"
  kvm_load_vcpu_state_res :: int
  kvm_run_res :: "nat \<Rightarrow> int \<times> ivee_exit"
  kvm_store_vcpu_state_res :: int
  vcpu_after :: x86_cpu_state

text \<open>\<open>struct ivee\<close> (lines 16-34).\<close>

record ivee =
  vm :: "nat option"
  memory_map :: memory_map
  x86_cpu :: x86_cpu_state
  entry_addr :: u64
  gpt_mr :: "region option"
  should_terminate :: bool

subsection \<open>The memory map (memory.h)\<close>

definition region_overlaps :: "nat \<Rightarrow> nat \<Rightarrow> region \<Rightarrow> bool" where
  "region_overlaps f l r = (\<not> (l < unat (first_gfn r) \<or> unat (last_gfn r) < f))"

fun insert_region :: "region \<Rightarrow> memory_map \<Rightarrow> memory_map" where
  "insert_region mr [] = [mr]"
| "insert_region mr (r # rs) =
     (if first_gfn mr < first_gfn r then mr # r # rs else r # insert_region mr rs)"

text \<open>
  Modelled from the spec: \<open>ivee_map_host_memory\<close> (its source is absent). It rounds
  the size up to whole pages, requires \<open>gpa\<close> page-aligned and the range
  \<open>[gpa, gpa + size)\<close> clear of every existing region, obtains a host mapping
  (file-backed when \<open>fd\<close> is not \<open>-1\<close>, otherwise anonymous and zero-filled) and
  inserts the region in ascending \<open>first_gfn\<close> order; it returns the region, or NULL.
  A region has \<open>first_gfn \<le> last_gfn\<close>, so a range of no page, or one that runs past
  the 64-bit address space, yields NULL as well.
\<close>

definition ivee_map_host_memory ::
  "env \<Rightarrow> world \<Rightarrow> memory_map \<Rightarrow> u64 \<Rightarrow> u64 \<Rightarrow> int \<Rightarrow> bool \<Rightarrow> ivee_prot set
     \<Rightarrow> region option \<times> world \<times> memory_map" where
  "ivee_map_host_memory e w mm gpa sz fd readonly pr =
     (let npages = (unat sz + 4095) div 4096;
          f = unat gpa div 4096;
          l = f + npages - 1
      in if unat gpa mod 4096 \<noteq> 0 \<or> npages = 0 \<or> 2 ^ 52 \<le> l then (None, w, mm)
         else if \<exists>r \<in> set mm. region_overlaps f l r then (None, w, mm)
         else (case host_alloc e gpa of
                 None \<Rightarrow> (None, w, mm)
               | Some h \<Rightarrow>
                   (let mr = \<lparr>first_gfn = of_nat f, last_gfn = of_nat l, hva = h, prot = pr\<rparr>;
                        w' = w\<lparr>host_maps := h # host_maps w,
                               hmem := (hmem w)(h := (if fd = -1 then (\<lambda>_. 0) else file_image e))\<rparr>
                    in (Some mr, w', insert_region mr mm))))"

text \<open>
  Modelled from the spec: \<open>ivee_free_memory_map\<close> releases the host mapping of every
  region and empties the list.
\<close>

definition ivee_free_memory_map :: "world \<Rightarrow> memory_map \<Rightarrow> world \<times> memory_map" where
  "ivee_free_memory_map w mm =
     (w\<lparr>host_maps := filter (\<lambda>h. h \<notin> hva ` set mm) (host_maps w)\<rparr>, [])"

subsection \<open>The page-table builder (lines 115-162)\<close>

text \<open>
  The page-table memory is the host mapping of \<open>gpt_mr\<close>, an array of 64-bit entries;
  \<open>pentry\<close> is an index into it.
\<close>

type_synonym pt_mem = "nat \<Rightarrow> u64"

definition entries_per_page :: nat where
  "entries_per_page = unat X86_PAGE_SIZE div 8"

definition pde_entry :: "nat \<Rightarrow> u64" where
  "pde_entry i = (IVEE_PTE_BASE_GPA + X86_PAGE_SIZE * of_nat i) OR X86_PTE_PRESENT OR X86_PTE_RW"

text \<open>The loop of lines 141-143, \<open>pentry\<close> starting at \<open>p\<close>.\<close>

definition write_pdes :: "nat \<Rightarrow> pt_mem \<Rightarrow> pt_mem" where
  "write_pdes p m = fold (\<lambda>i m'. m'(p + i := pde_entry i)) [0..<X86_PTES_PER_PAGE] m"

text \<open>\<open>memset(base, 0, n * sizeof(uint64_t))\<close>.\<close>

definition memset_zero :: "nat \<Rightarrow> nat \<Rightarrow> pt_mem \<Rightarrow> pt_mem" where
  "memset_zero b n m = (\<lambda>j. if b \<le> j \<and> j < b + n then 0 else m j)"

text \<open>The value and the slot written at lines 153-157.\<close>

definition pte_value :: "region \<Rightarrow> u64 \<Rightarrow> u64" where
  "pte_value mr gfn =
     push_bit X86_PAGE_SHIFT gfn
       OR (if IVEE_WRITE \<in> prot mr then X86_PTE_RW else 0)
       OR (if IVEE_EXEC \<in> prot mr then 0 else X86_PTE_NX)
       OR X86_PTE_PRESENT"

definition pte_slot :: "u64 \<Rightarrow> nat" where
  "pte_slot gfn =
     unat (drop_bit 9 gfn AND 0x1FF) * X86_PTES_PER_PAGE + unat (gfn AND 0x1FF)"

text \<open>
  The inner loop \<open>for (gfn = first_gfn; gfn <= last_gfn; ++gfn)\<close> on 64-bit frame
  numbers. It does not end when \<open>last_gfn\<close> is the largest 64-bit value; None is
  that case.
\<close>

partial_function (option) map_region_ptes :: "nat \<Rightarrow> region \<Rightarrow> u64 \<Rightarrow> pt_mem \<Rightarrow> pt_mem option" where
  "map_region_ptes b mr gfn m =
     (if gfn \<le> last_gfn mr
      then map_region_ptes b mr (gfn + 1) (m(b + pte_slot gfn := pte_value mr gfn))
      else Some m)"

text \<open>The outer loop \<open>LIST_FOREACH\<close> over the regions of the map.\<close>

fun map_all_ptes :: "nat \<Rightarrow> memory_map \<Rightarrow> pt_mem \<Rightarrow> pt_mem option" where
  "map_all_ptes b [] m = Some m"
| "map_all_ptes b (mr # mrs) m =
     (case map_region_ptes b mr (first_gfn mr) m of
        None \<Rightarrow> None
      | Some m' \<Rightarrow> map_all_ptes b mrs m')"

definition init_guest_page_table :: "env \<Rightarrow> world \<Rightarrow> ivee \<Rightarrow> (int \<times> world \<times> ivee) option" where
  "init_guest_page_table e w s =
     (case ivee_map_host_memory e w (memory_map s) IVEE_PML4_BASE_GPA IVEE_PAGE_TABLE_SIZE
             (-1) False {IVEE_READ, IVEE_WRITE} of
        (None, w1, mm1) \<Rightarrow> Some (- ENOMEM, w1, s\<lparr>memory_map := mm1, gpt_mr := None\<rparr>)
      | (Some mr, w1, mm1) \<Rightarrow>
          (let m0 = hmem w1 (hva mr);
               pentry0 = 0;
               m1 = m0(pentry0 := IVEE_PDPE_BASE_GPA OR X86_PTE_PRESENT);
               pentry1 = pentry0 + entries_per_page;
               m2 = m1(pentry1 := IVEE_PDE_BASE_GPA OR X86_PTE_PRESENT);
               pentry2 = pentry1 + entries_per_page;
               m3 = write_pdes pentry2 m2;
               pte_pages_base = pentry2 + X86_PTES_PER_PAGE;
               m4 = memset_zero pte_pages_base IVEE_GUEST_PAGES_COUNT m3
           in (case map_all_ptes pte_pages_base mm1 m4 of
                 None \<Rightarrow> None
               | Some m5 \<Rightarrow>
                   Some (0, w1\<lparr>hmem := (hmem w1)(hva mr := m5)\<rparr>,
                         s\<lparr>memory_map := mm1, gpt_mr := Some mr\<rparr>))))"

subsection \<open>The boot CPU image (lines 164-223)\<close>

definition reset_x86_segment ::
  "x86_segment \<Rightarrow> u16 \<Rightarrow> u32 \<Rightarrow> x86_seg_type set \<Rightarrow> x86_seg_flag set \<Rightarrow> x86_segment" where
  "reset_x86_segment seg sel lim ty fl =
     seg\<lparr>base := 0, limit := lim, selector := sel, type := ty, dpl := 0, flags := fl\<rparr>"

text \<open>The image after \<open>memset(x86_cpu, 0, sizeof(*x86_cpu))\<close>.\<close>

definition zero_x86_segment :: x86_segment where
  "zero_x86_segment = \<lparr>base = 0, limit = 0, selector = 0, type = {}, dpl = 0, flags = {}\<rparr>"

definition zero_x86_cpu :: x86_cpu_state where
  "zero_x86_cpu =
     \<lparr>rax = 0, rbx = 0, rcx = 0, rdx = 0, rsi = 0, rdi = 0, rsp = 0, rbp = 0,
      r8 = 0, r9 = 0, r10 = 0, r11 = 0, r12 = 0, r13 = 0, r14 = 0, r15 = 0,
      rip = 0, rflags = 0,
      cs = zero_x86_segment, ds = zero_x86_segment, ss = zero_x86_segment,
      es = zero_x86_segment, fs = zero_x86_segment, gs = zero_x86_segment,
      tr = zero_x86_segment, ldt = zero_x86_segment,
      cr0 = 0, cr3 = 0, cr4 = 0, efer = 0\<rparr>"

definition init_x86_cpu :: "x86_cpu_state \<Rightarrow> x86_cpu_state" where
  "init_x86_cpu c0 =
     (let c = zero_x86_cpu;
          c = c\<lparr>rflags := 0x2\<rparr>;
          c = c\<lparr>cs := reset_x86_segment (cs c) 0x8 0xFFFFFFFF {X86_SEG_TYPE_CODE, X86_SEG_TYPE_ACC}
                        {X86_SEG_S, X86_SEG_P, X86_SEG_G, X86_SEG_L}\<rparr>;
          c = c\<lparr>ds := reset_x86_segment (ds c) 0x10 0xFFFFFFFF {X86_SEG_TYPE_DATA, X86_SEG_TYPE_ACC}
                        {X86_SEG_S, X86_SEG_P, X86_SEG_G, X86_SEG_DB}\<rparr>;
          c = c\<lparr>ss := reset_x86_segment (ss c) 0x10 0xFFFFFFFF {X86_SEG_TYPE_DATA, X86_SEG_TYPE_ACC}
                        {X86_SEG_S, X86_SEG_P, X86_SEG_G, X86_SEG_DB}\<rparr>;
          c = c\<lparr>es := reset_x86_segment (es c) 0x10 0xFFFFFFFF {X86_SEG_TYPE_DATA, X86_SEG_TYPE_ACC}
                        {X86_SEG_S, X86_SEG_P, X86_SEG_G, X86_SEG_DB}\<rparr>;
          c = c\<lparr>fs := reset_x86_segment (fs c) 0x10 0xFFFFFFFF {X86_SEG_TYPE_DATA, X86_SEG_TYPE_ACC}
                        {X86_SEG_S, X86_SEG_P, X86_SEG_G, X86_SEG_DB}\<rparr>;
          c = c\<lparr>gs := reset_x86_segment (gs c) 0x10 0xFFFFFFFF {X86_SEG_TYPE_DATA, X86_SEG_TYPE_ACC}
                        {X86_SEG_S, X86_SEG_P, X86_SEG_G, X86_SEG_DB}\<rparr>;
          c = c\<lparr>tr := reset_x86_segment (tr c) 0 0 {X86_SEG_TYPE_TSS32} {X86_SEG_P}\<rparr>;
          c = c\<lparr>ldt := reset_x86_segment (ldt c) 0 0 {X86_SEG_TYPE_LDT} {X86_SEG_P}\<rparr>;
          c = c\<lparr>cr0 := 0x80010001\<rparr>;
          c = c\<lparr>cr4 := 0x20\<rparr>;
          c = c\<lparr>efer := 0x500\<rparr>
      in c\<lparr>cr3 := IVEE_PML4_BASE_GPA\<rparr>)"

subsection \<open>The loader (lines 226-377)\<close>

text \<open>
  The environment describes the file at the path given to \<open>ivee_load_executable\<close>, so
  the loaders take no path. File descriptors and the libelf handle are not tracked:
  \<open>close\<close> and \<open>elf_end\<close> leave no trace in the model.
\<close>

definition load_bin :: "env \<Rightarrow> world \<Rightarrow> ivee \<Rightarrow> int \<times> world \<times> ivee" where
  "load_bin e w s =
     (if stat_res e \<noteq> 0 then (stat_res e, w\<lparr>errno := sys_errno e\<rparr>, s)
      else if st_size e = 0 then (- EINVAL, w, s)
      else if open_res e < 0 then (open_res e, w\<lparr>errno := sys_errno e\<rparr>, s)
      else
        (let s1 = s\<lparr>entry_addr := 0x400000\<rparr>
         in (case ivee_map_host_memory e w (memory_map s1) (entry_addr s1) (st_size e)
                    (open_res e) True {IVEE_READ, IVEE_EXEC} of
               (None, w1, mm1) \<Rightarrow> (- ENOMEM, w1, s1\<lparr>memory_map := mm1\<rparr>)
             | (Some image_mr, w1, mm1) \<Rightarrow> (0, w1, s1\<lparr>memory_map := mm1\<rparr>))))"

definition phdr_prot :: "GElf_Phdr \<Rightarrow> ivee_prot set" where
  "phdr_prot phdr =
     (if p_flags phdr AND PF_X \<noteq> 0 then {IVEE_EXEC} else {})
       \<union> (if p_flags phdr AND PF_R \<noteq> 0 then {IVEE_READ} else {})
       \<union> (if p_flags phdr AND PF_W \<noteq> 0 then {IVEE_WRITE} else {})"

text \<open>
  The program-header loop of lines 322-351 over the indices still to visit. The result
  is \<open>Some res\<close> when the loop leaves by \<open>goto error_out\<close> with that value of
  \<open>res\<close>, and None when it runs to its end. When the mapping fails (line 343)
  \<open>res\<close> has not been assigned and is still 0. \<open>nbytes != phdr.p_filesz\<close> compares a
  \<open>ssize_t\<close> with a \<open>uint64_t\<close>, so \<open>nbytes\<close> is converted to 64 bits unsigned.
\<close>

fun load_phdrs :: "env \<Rightarrow> nat list \<Rightarrow> world \<Rightarrow> ivee \<Rightarrow> int option \<times> world \<times> ivee" where
  "load_phdrs e [] w s = (None, w, s)"
| "load_phdrs e (i # is) w s =
     (case getphdr_res e i of
        None \<Rightarrow> (Some (- elf_errno_res e), w, s)
      | Some phdr \<Rightarrow>
          if p_type phdr \<noteq> PT_LOAD then load_phdrs e is w s
          else
            (case ivee_map_host_memory e w (memory_map s) (p_vaddr phdr) (p_memsz phdr)
                    (-1) False (phdr_prot phdr) of
               (None, w1, mm1) \<Rightarrow> (Some 0, w1, s\<lparr>memory_map := mm1\<rparr>)
             | (Some segment_mr, w1, mm1) \<Rightarrow>
                 (let nbytes = pread_res e (p_filesz phdr) (p_offset phdr);
                      w2 = w1\<lparr>errno := (if nbytes < 0 then sys_errno e else errno w1),
                              hmem := (hmem w1)(hva segment_mr :=
                                         pread_image e (p_filesz phdr) (p_offset phdr))\<rparr>;
                      s1 = s\<lparr>memory_map := mm1\<rparr>
                  in if (word_of_int nbytes :: u64) \<noteq> p_filesz phdr
                     then (Some (- errno w2), w2, s1)
                     else load_phdrs e is w2 s1)))"

definition load_elf64 :: "env \<Rightarrow> world \<Rightarrow> ivee \<Rightarrow> int \<times> world \<times> ivee" where
  "load_elf64 e w s =
     (if elf_version_res e = EV_NONE then (- ENOTSUP, w, s)
      else if open_res e < 0 then (open_res e, w\<lparr>errno := sys_errno e\<rparr>, s)
      else if \<not> elf_begin_res e then (- elf_errno_res e, w, s)
      else if elf_kind_res e \<noteq> ELF_K_ELF then (- elf_errno_res e, w, s)
      else
        (case getehdr_res e of
           None \<Rightarrow> (- elf_errno_res e, w, s)
         | Some ehdr \<Rightarrow>
             if getclass_res e \<noteq> ELFCLASS64 then (- ENOTSUP, w, s)
             else if e_type ehdr \<noteq> ET_EXEC \<and> e_type ehdr \<noteq> ET_DYN then (- ENOTSUP, w, s)
             else if e_machine ehdr \<noteq> EM_X86_64 then (- ENOTSUP, w, s)
             else
               (case load_phdrs e [0..<unat (e_phnum ehdr)] w s of
                  (Some res, w1, s1) \<Rightarrow> (res, w1, s1)
                | (None, w1, s1) \<Rightarrow> (0, w1, s1\<lparr>entry_addr := e_entry ehdr\<rparr>))))"

definition load_any :: "env \<Rightarrow> world \<Rightarrow> ivee \<Rightarrow> int \<times> world \<times> ivee" where
  "load_any e w s =
     (case load_elf64 e w s of
        (res, w1, s1) \<Rightarrow> if res = 0 then (res, w1, s1) else load_bin e w1 s1)"

subsection \<open>\<open>ivee_load_executable\<close> (lines 379-431)\<close>

text \<open>The format selector; \<open>IVEE_EXEC_OTHER\<close> is any value outside the enumeration.\<close>

datatype ivee_executable_format_t = IVEE_EXEC_BIN | IVEE_EXEC_ELF64 | IVEE_EXEC_ANY | IVEE_EXEC_OTHER

text \<open>The label \<open>error_out\<close> of lines 427-430.\<close>

definition load_error_out :: "int \<Rightarrow> world \<Rightarrow> ivee \<Rightarrow> int \<times> world \<times> ivee option" where
  "load_error_out res w s =
     (case ivee_free_memory_map w (memory_map s) of
        (w', mm') \<Rightarrow> (res, w', Some (s\<lparr>memory_map := mm'\<rparr>)))"

definition ivee_load_executable ::
  "env \<Rightarrow> world \<Rightarrow> ivee option \<Rightarrow> string option \<Rightarrow> ivee_executable_format_t
     \<Rightarrow> (int \<times> world \<times> ivee option) option" where
  "ivee_load_executable e w ivee file format =
     (case ivee of
        None \<Rightarrow> Some (- EINVAL, w, None)
      | Some s \<Rightarrow>
     (case file of
        None \<Rightarrow> Some (- EINVAL, w, Some s)
      | Some path \<Rightarrow>
          if access_res e \<noteq> 0 then Some (- EINVAL, w\<lparr>errno := sys_errno e\<rparr>, Some s)
          else
            (case (case format of
                     IVEE_EXEC_BIN \<Rightarrow> load_bin e w s
                   | IVEE_EXEC_ELF64 \<Rightarrow> load_elf64 e w s
                   | IVEE_EXEC_ANY \<Rightarrow> load_any e w s
                   | IVEE_EXEC_OTHER \<Rightarrow> (- ENOTSUP, w, s)) of
               (res, w1, s1) \<Rightarrow>
                 if res \<noteq> 0 then Some (load_error_out res w1 s1)
                 else
                   (case init_guest_page_table e w1 s1 of
                      None \<Rightarrow> None
                    | Some (res2, w2, s2) \<Rightarrow>
                        if res2 \<noteq> 0 then Some (load_error_out res2 w2 s2)
                        else
                          (let res3 = set_kvm_memory_map_res e (memory_map s2)
                           in if res3 \<noteq> 0 then Some (load_error_out res3 w2 s2)
                              else Some (0, w2, Some (s2\<lparr>x86_cpu := init_x86_cpu (x86_cpu s2)\<rparr>)))))))"

subsection \<open>\<open>ivee_call\<close> (lines 433-531)\<close>

definition load_vcpu_state :: "env \<Rightarrow> ivee \<Rightarrow> ivee_arch_state \<Rightarrow> int \<times> ivee" where
  "load_vcpu_state e s st =
     (kvm_load_vcpu_state_res e,
      s\<lparr>x86_cpu := (x86_cpu s)\<lparr>rax := st_rax st, rbx := st_rbx st, rcx := st_rcx st,
           rdx := st_rdx st, rsi := st_rsi st, rdi := st_rdi st, rbp := st_rbp st,
           r8 := st_r8 st, r9 := st_r9 st, r10 := st_r10 st, r11 := st_r11 st,
           r12 := st_r12 st, r13 := st_r13 st, r14 := st_r14 st, r15 := st_r15 st,
           rip := entry_addr s\<rparr>\<rparr>)"

text \<open>
  \<open>ivee_kvm_store_vcpu_state\<close> fills \<open>ivee->x86_cpu\<close> with the image read back from
  the vCPU; on failure the image is left as it was.
\<close>

definition store_vcpu_state :: "env \<Rightarrow> ivee \<Rightarrow> ivee_arch_state \<Rightarrow> int \<times> ivee \<times> ivee_arch_state" where
  "store_vcpu_state e s st =
     (if kvm_store_vcpu_state_res e \<noteq> 0 then (kvm_store_vcpu_state_res e, s, st)
      else
        (let s1 = s\<lparr>x86_cpu := vcpu_after e\<rparr>;
             c = x86_cpu s1
         in (0, s1,
             st\<lparr>st_rax := rax c, st_rbx := rbx c, st_rcx := rcx c, st_rdx := rdx c,
                st_rsi := rsi c, st_rdi := rdi c,
                st_r8 := r8 c, st_r9 := r9 c, st_r10 := r10 c, st_r11 := r11 c,
                st_r12 := r12 c, st_r13 := r13 c, st_r14 := r14 c, st_r15 := r15 c\<rparr>)))"

definition handle_pio :: "env \<Rightarrow> ivee \<Rightarrow> ivee_pio_exit \<Rightarrow> int \<times> ivee" where
  "handle_pio e s pio =
     (if port pio = IVEE_PIO_EXIT_PORT e then (0, s\<lparr>should_terminate := True\<rparr>)
      else (- ENOTSUP, s))"

text \<open>The \<open>switch\<close> of lines 516-523.\<close>

definition handle_exit :: "env \<Rightarrow> ivee \<Rightarrow> ivee_exit \<Rightarrow> int \<times> ivee" where
  "handle_exit e s ex =
     (case exit_reason ex of
        IVEE_EXIT_IO \<Rightarrow> handle_pio e s (io ex)
      | _ \<Rightarrow> (- ENOTSUP, s))"

text \<open>
  The \<open>do ... while (!ivee->should_terminate)\<close> loop of lines 509-528. The status is
  nonzero when the loop is left by a \<open>return\<close>, and 0 when its condition ends it.
\<close>

partial_function (option) run_loop :: "env \<Rightarrow> world \<Rightarrow> ivee \<Rightarrow> (int \<times> world \<times> ivee) option" where
  "run_loop e w s =
     (let r = kvm_run_res e (run_count w);
          w1 = w\<lparr>run_count := Suc (run_count w)\<rparr>
      in if fst r \<noteq> 0 then Some (fst r, w1, s)
         else
           (let h = handle_exit e s (snd r)
            in if fst h \<noteq> 0 then Some (fst h, w1, snd h)
               else if \<not> should_terminate (snd h) then run_loop e w1 (snd h)
               else Some (0, w1, snd h)))"

definition ivee_call ::
  "env \<Rightarrow> world \<Rightarrow> ivee option \<Rightarrow> ivee_arch_state option
     \<Rightarrow> (int \<times> world \<times> ivee option \<times> ivee_arch_state option) option" where
  "ivee_call e w ivee state =
     (case ivee of
        None \<Rightarrow> Some (- EINVAL, w, None, state)
      | Some s \<Rightarrow>
     (case state of
        None \<Rightarrow> Some (- EINVAL, w, Some s, None)
      | Some st \<Rightarrow>
          (case load_vcpu_state e s st of
             (res, s1) \<Rightarrow>
               if res \<noteq> 0 then Some (res, w, Some s1, Some st)
               else
                 (case run_loop e w (s1\<lparr>should_terminate := False\<rparr>) of
                    None \<Rightarrow> None
                  | Some (res2, w2, s2) \<Rightarrow>
                      if res2 \<noteq> 0 then Some (res2, w2, Some s2, Some st)
                      else
                        (case store_vcpu_state e s2 st of
                           (res3, s3, st') \<Rightarrow> Some (res3, w2, Some s3, Some st'))))))"

subsection \<open>\<open>ivee_create\<close> and \<open>ivee_destroy\<close> (lines 36-91)\<close>

definition ivee_list_platform_capabilities :: u64 where
  "ivee_list_platform_capabilities = 0"

text \<open>
  Modelled from the spec: \<open>ivee_release_kvm_vm\<close> releases the VM handle (a NULL handle
  is nothing to release) and \<open>ivee_free\<close> returns an allocation of \<open>ivee_zalloc\<close>.
\<close>

definition ivee_release_kvm_vm :: "world \<Rightarrow> nat option \<Rightarrow> world" where
  "ivee_release_kvm_vm w v =
     (case v of None \<Rightarrow> w | Some h \<Rightarrow> w\<lparr>vms := removeAll h (vms w)\<rparr>)"

definition ivee_free :: "world \<Rightarrow> nat \<Rightarrow> world" where
  "ivee_free w a = w\<lparr>heap := removeAll a (heap w)\<rparr>"

text \<open>A \<open>struct ivee*\<close> to be freed is the address of the allocation and the struct there.\<close>

definition ivee_destroy :: "world \<Rightarrow> (nat \<times> ivee) option \<Rightarrow> world" where
  "ivee_destroy w ivee =
     (case ivee of
        None \<Rightarrow> w
      | Some (a, s) \<Rightarrow> ivee_free (ivee_release_kvm_vm w (vm s)) a)"

text \<open>The struct after \<open>ivee_zalloc\<close>: all fields zero.\<close>

definition zero_ivee :: ivee where
  "zero_ivee =
     \<lparr>vm = None, memory_map = [], x86_cpu = zero_x86_cpu, entry_addr = 0, gpt_mr = None,
      should_terminate = False\<rparr>"

text \<open>
  \<open>out_ivee_ptr\<close> is given as whether it is non-NULL; the third component of the result
  is what the call stores through it, None when it stores nothing.
\<close>

definition ivee_create :: "env \<Rightarrow> world \<Rightarrow> u64 \<Rightarrow> bool \<Rightarrow> int \<times> world \<times> (nat \<times> ivee) option" where
  "ivee_create e w caps out_ivee_ptr =
     (if \<not> out_ivee_ptr then (- EINVAL, w, None)
      else if caps AND NOT ivee_list_platform_capabilities \<noteq> 0 then (- ENOTSUP, w, None)
      else
        (case zalloc_res e of
           None \<Rightarrow> (- ENOMEM, w, None)
         | Some a \<Rightarrow>
             (let w1 = w\<lparr>heap := a # heap w\<rparr>;
                  s0 = zero_ivee
              in if init_kvm_res e \<noteq> 0
                 then (init_kvm_res e, ivee_destroy w1 (Some (a, s0)), None)
                 else
                   (case create_kvm_vm_res e of
                      None \<Rightarrow> (- ENXIO, ivee_destroy w1 (Some (a, s0)), None)
                    | Some v \<Rightarrow>
                        (let w2 = w1\<lparr>vms := v # vms w1\<rparr>;
                             s1 = s0\<lparr>vm := Some v\<rparr>;
                             s2 = s1\<lparr>memory_map := []\<rparr>
                         in if init_memory_map_res e \<noteq> 0
                            then (init_memory_map_res e, ivee_destroy w2 (Some (a, s2)), None)
                            else (0, w2, Some (a, s2)))))))"

subsection \<open>The data-model invariants of a memory map, and the layout of the page-table region\<close>


definition regions_disjoint :: "memory_map \<Rightarrow> bool" where
  "regions_disjoint mm =
     (\<forall>r \<in> set mm. \<forall>r' \<in> set mm. r \<noteq> r' \<longrightarrow> last_gfn r < first_gfn r' \<or> last_gfn r' < first_gfn r)"

definition regions_below_1g :: "memory_map \<Rightarrow> bool" where
  "regions_below_1g mm = (\<forall>r \<in> set mm. last_gfn r < 0x40000)"





subsection \<open>Concrete hosts and guests\<close>

text \<open>
  A fresh host, a session as \<open>ivee_create\<close> leaves it, and a host on which every
  call succeeds: the file is a flat binary of \<open>0x1800\<close> bytes, the exit port is
  \<open>0x78\<close>, the first guest entry ends with a write to that port, and the guest
  leaves \<open>0xDEADBEEF\<close> in \<open>rax\<close> and 1 in \<open>rbp\<close>.
\<close>

definition fresh_world :: world where
  "fresh_world =
     \<lparr>errno = 0, heap = [], vms = [], host_maps = [], hmem = (\<lambda>_ _. 0), run_count = 0\<rparr>"

definition created_ivee :: ivee where
  "created_ivee = zero_ivee\<lparr>vm := Some 3\<rparr>"

definition zero_arch_state :: ivee_arch_state where
  "zero_arch_state =
     \<lparr>st_rax = 0, st_rbx = 0, st_rcx = 0, st_rdx = 0, st_rsi = 0, st_rdi = 0, st_rbp = 0,
      st_r8 = 0, st_r9 = 0, st_r10 = 0, st_r11 = 0, st_r12 = 0, st_r13 = 0, st_r14 = 0,
      st_r15 = 0\<rparr>"

definition pio_exit_on :: "u16 \<Rightarrow> ivee_exit" where
  "pio_exit_on p =
     \<lparr>exit_reason = IVEE_EXIT_IO, io = \<lparr>port = p, is_write = True, op_size = 1, data = 0\<rparr>\<rparr>"

definition flat_env :: env where
  "flat_env =
     \<lparr>IVEE_PIO_EXIT_PORT = 0x78,
      zalloc_res = Some 0x5000,
      init_kvm_res = 0,
      create_kvm_vm_res = Some 3,
      init_memory_map_res = 0,
      access_res = 0,
      stat_res = 0,
      st_size = 0x1800,
      open_res = 4,
      sys_errno = 2,
      host_alloc = (\<lambda>gpa. if gpa = 0x400000 then Some 0x7F0000000000
                          else if gpa = 0x3FDFD000 then Some 0x7F0000400000
                          else None),
      file_image = (\<lambda>_. 0),
      elf_version_res = 1,
      elf_begin_res = True,
      elf_kind_res = ELF_K_NONE,
      elf_errno_res = 0,
      getehdr_res = None,
      getclass_res = 0,
      getphdr_res = (\<lambda>_. None),
      pread_res = (\<lambda>_ _. 0),
      pread_image = (\<lambda>_ _ _. 0),
      set_kvm_memory_map_res = (\<lambda>_. 0),
      kvm_load_vcpu_state_res = 0,
      kvm_run_res = (\<lambda>_. (0, pio_exit_on 0x78)),
      kvm_store_vcpu_state_res = 0,
      vcpu_after = zero_x86_cpu\<lparr>rax := 0xDEADBEEF, rbp := 1\<rparr>\<rparr>"

definition image_region :: region where
  "image_region =
     \<lparr>first_gfn = 0x400, last_gfn = 0x401, hva = 0x7F0000000000, prot = {IVEE_READ, IVEE_EXEC}\<rparr>"

definition page_table_region :: region where
  "page_table_region =
     \<lparr>first_gfn = 0x3FDFD, last_gfn = 0x3FFFF, hva = 0x7F0000400000,
      prot = {IVEE_READ, IVEE_WRITE}\<rparr>"

text \<open>
  Variations of that host: the guest touches another port; the guest halts; reading the
  vCPU back fails; the host refuses every mapping.
\<close>

definition other_port_env :: env where
  "other_port_env = flat_env\<lparr>kvm_run_res := (\<lambda>_. (0, pio_exit_on 0x60))\<rparr>"

definition halt_env :: env where
  "halt_env = flat_env\<lparr>kvm_run_res := (\<lambda>_. (0, (pio_exit_on 0x78)\<lparr>exit_reason := IVEE_EXIT_HLT\<rparr>))\<rparr>"

definition store_fail_env :: env where
  "store_fail_env = flat_env\<lparr>kvm_store_vcpu_state_res := - EIO\<rparr>"

definition no_memory_env :: env where
  "no_memory_env = flat_env\<lparr>host_alloc := (\<lambda>_. None)\<rparr>"

text \<open>The parts of what the entry points return.\<close>

definition call_status ::
  "(int \<times> world \<times> ivee option \<times> ivee_arch_state option) option \<Rightarrow> int option" where
  "call_status r = map_option fst r"

definition call_session ::
  "(int \<times> world \<times> ivee option \<times> ivee_arch_state option) option \<Rightarrow> ivee option" where
  "call_session r = Option.bind r (\<lambda>(res, w, s, st). s)"

definition call_arch_state ::
  "(int \<times> world \<times> ivee option \<times> ivee_arch_state option) option \<Rightarrow> ivee_arch_state option" where
  "call_arch_state r = Option.bind r (\<lambda>(res, w, s, st). st)"

text \<open>
  An ELF64 executable with two LOAD segments, at \<open>0x600000\<close> (read, execute) and at
  \<open>0x800000\<close> (read, write). On \<open>io_error_elf_env\<close> the read of the second
  segment fails with \<open>EIO\<close>; on \<open>short_read_elf_env\<close> the file ends early, so
  that read returns \<open>0x800\<close> bytes of the \<open>0x1000\<close> asked for.
\<close>

definition text_phdr :: GElf_Phdr where
  "text_phdr =
     \<lparr>p_type = PT_LOAD, p_flags = 5, p_offset = 0x1000, p_vaddr = 0x600000,
      p_filesz = 0x1000, p_memsz = 0x1000\<rparr>"

definition data_phdr :: GElf_Phdr where
  "data_phdr =
     \<lparr>p_type = PT_LOAD, p_flags = 6, p_offset = 0x2000, p_vaddr = 0x800000,
      p_filesz = 0x1000, p_memsz = 0x2000\<rparr>"

definition elf_env :: env where
  "elf_env =
     flat_env\<lparr>
       host_alloc := (\<lambda>gpa. if gpa = 0x400000 then Some 0x7F0000000000
                           else if gpa = 0x3FDFD000 then Some 0x7F0000400000
                           else if gpa = 0x600000 then Some 0x7F0000800000
                           else if gpa = 0x800000 then Some 0x7F0000C00000
                           else None),
       elf_kind_res := ELF_K_ELF,
       getehdr_res := Some \<lparr>e_type = ET_EXEC, e_machine = EM_X86_64, e_entry = 0x600000,
                              e_phnum = 2\<rparr>,
       getclass_res := ELFCLASS64,
       getphdr_res := (\<lambda>i. if i = 0 then Some text_phdr
                             else if i = 1 then Some data_phdr else None)\<rparr>"

definition io_error_elf_env :: env where
  "io_error_elf_env =
     elf_env\<lparr>sys_errno := EIO,
              pread_res := (\<lambda>count offset. if offset = 0x1000 then 0x1000 else - 1)\<rparr>"

definition short_read_elf_env :: env where
  "short_read_elf_env =
     elf_env\<lparr>pread_res := (\<lambda>count offset. if offset = 0x1000 then 0x1000 else 0x800)\<rparr>"

definition text_region :: region where
  "text_region =
     \<lparr>first_gfn = 0x600, last_gfn = 0x600, hva = 0x7F0000800000, prot = {IVEE_EXEC, IVEE_READ}\<rparr>"

definition data_region :: region where
  "data_region =
     \<lparr>first_gfn = 0x800, last_gfn = 0x801, hva = 0x7F0000C00000, prot = {IVEE_READ, IVEE_WRITE}\<rparr>"

text \<open>
  The host and the session after \<open>ivee_create\<close> and a successful load of the flat
  binary, as far as \<open>ivee_destroy\<close> looks at them.
\<close>

definition loaded_world :: world where
  "loaded_world =
     fresh_world\<lparr>heap := [0x5000], vms := [3], host_maps := [0x7F0000400000, 0x7F0000000000]\<rparr>"

definition loaded_ivee :: ivee where
  "loaded_ivee =
     created_ivee\<lparr>memory_map := [image_region, page_table_region], entry_addr := 0x400000,
                  gpt_mr := Some page_table_region\<rparr>"

text \<open>
  What every step of a load keeps: the regions already in the map stay in it, every live
  host mapping is an old one or backs a region of the map, and the fields \<open>vm\<close>,
  \<open>x86_cpu\<close> and \<open>should_terminate\<close> are not written.
\<close>

definition keeps :: "world \<Rightarrow> ivee \<Rightarrow> world \<Rightarrow> ivee \<Rightarrow> bool" where
  "keeps w s w1 s1 =
     (set (memory_map s) \<subseteq> set (memory_map s1)
      \<and> set (host_maps w1) \<subseteq> set (host_maps w) \<union> hva ` set (memory_map s1)
      \<and> vm s1 = vm s \<and> x86_cpu s1 = x86_cpu s \<and> should_terminate s1 = should_terminate s)"

section \<open>Proofs\<close>

subsection \<open>The loops of the page-table builder\<close>

lemma mask9: "(0x1FF::u64) = mask 9" by (simp add: mask_eq_exp_minus_1)

lemma pte_slot_small: "gfn < 0x40000 \<Longrightarrow> pte_slot gfn = unat gfn"
proof -
  assume a: "gfn < 0x40000"
  then have b: "unat gfn < 262144" by (simp add: word_less_nat_alt)
  have 1: "unat (drop_bit 9 gfn AND 0x1FF) = (unat gfn div 512) mod 512"
    unfolding mask9 by (simp flip: take_bit_eq_mask add: unsigned_take_bit_eq unat_drop_bit_eq take_bit_eq_mod drop_bit_eq_div unat_div unat_mod)
  have 2: "unat (gfn AND 0x1FF) = unat gfn mod 512"
    unfolding mask9 by (simp flip: take_bit_eq_mask add: unsigned_take_bit_eq take_bit_eq_mod unat_mod)
  show ?thesis unfolding pte_slot_def X86_PTES_PER_PAGE_def 1 2 using b by simp
qed

lemma unat_succ:
  fixes gfn l :: u64
  assumes "gfn \<le> l" "l \<noteq> - 1" shows "unat (gfn + 1) = Suc (unat gfn)"
proof -
  have "gfn \<noteq> - 1" using assms word_order.extremum_unique by blast
  then have "1 + gfn \<noteq> 0" by (metis add_left_cancel add_neg_numeral_special(7))
  then show ?thesis using unatSuc[of gfn] by (simp add: add.commute)
qed

lemma map_region_ptes_total:
  "last_gfn mr \<noteq> - 1 \<Longrightarrow> \<exists>m'. map_region_ptes b mr gfn m = Some m'"
proof (induction "Suc (unat (last_gfn mr)) - unat gfn" arbitrary: gfn m)
  case 0
  then have "\<not> gfn \<le> last_gfn mr" by (simp add: word_le_nat_alt)
  then show ?case by (subst map_region_ptes.simps) simp
next
  case (Suc n)
  show ?case
  proof (cases "gfn \<le> last_gfn mr")
    case True
    then have u: "unat (gfn + 1) = Suc (unat gfn)" using Suc.prems by (rule unat_succ)
    have "n = Suc (unat (last_gfn mr)) - unat (gfn + 1)" using Suc.hyps(2) u by simp
    from Suc.hyps(1)[OF this Suc.prems] obtain m' where
      "map_region_ptes b mr (gfn + 1) (m(b + pte_slot gfn := pte_value mr gfn)) = Some m'" by blast
    then show ?thesis using True by (subst map_region_ptes.simps) simp
  next
    case False
    then show ?thesis by (subst map_region_ptes.simps) simp
  qed
qed

lemma map_region_ptes_window:
  "last_gfn mr < 0x40000 \<Longrightarrow>
   map_region_ptes b mr gfn m =
     Some (\<lambda>j. if b + unat gfn \<le> j \<and> j \<le> b + unat (last_gfn mr)
               then pte_value mr (of_nat (j - b)) else m j)"
proof (induction "Suc (unat (last_gfn mr)) - unat gfn" arbitrary: gfn m)
  case 0
  then have n: "\<not> gfn \<le> last_gfn mr" by (simp add: word_le_nat_alt)
  then have "unat (last_gfn mr) < unat gfn" by (simp add: word_le_nat_alt)
  then have "(\<lambda>j. if b + unat gfn \<le> j \<and> j \<le> b + unat (last_gfn mr)
               then pte_value mr (of_nat (j - b)) else m j) = m" by (auto simp: fun_eq_iff)
  then show ?case using n by (subst map_region_ptes.simps) simp
next
  case (Suc n)
  show ?case
  proof (cases "gfn \<le> last_gfn mr")
    case True
    have ne: "last_gfn mr \<noteq> - 1" using Suc.prems by auto
    have u: "unat (gfn + 1) = Suc (unat gfn)" using True ne by (rule unat_succ)
    have small: "gfn < 0x40000" using True Suc.prems by simp
    have le: "unat gfn \<le> unat (last_gfn mr)" using True by (simp add: word_le_nat_alt)
    have "n = Suc (unat (last_gfn mr)) - unat (gfn + 1)" using Suc.hyps(2) u by simp
    note IH = Suc.hyps(1)[OF this Suc.prems, of "m(b + pte_slot gfn := pte_value mr gfn)"]
    have "map_region_ptes b mr gfn m
            = map_region_ptes b mr (gfn + 1) (m(b + pte_slot gfn := pte_value mr gfn))"
      using True by (subst map_region_ptes.simps) simp
    also have "\<dots> = Some (\<lambda>j. if b + unat (gfn + 1) \<le> j \<and> j \<le> b + unat (last_gfn mr)
               then pte_value mr (of_nat (j - b)) else (m(b + pte_slot gfn := pte_value mr gfn)) j)"
      by (rule IH)
    also have "(\<lambda>j. if b + unat (gfn + 1) \<le> j \<and> j \<le> b + unat (last_gfn mr)
               then pte_value mr (of_nat (j - b)) else (m(b + pte_slot gfn := pte_value mr gfn)) j)
             = (\<lambda>j. if b + unat gfn \<le> j \<and> j \<le> b + unat (last_gfn mr)
               then pte_value mr (of_nat (j - b)) else m j)"
      using le by (auto simp: u pte_slot_small[OF small] fun_eq_iff)
    finally show ?thesis .
  next
    case False
    then have "unat (last_gfn mr) < unat gfn" by (simp add: word_le_nat_alt)
    then have "(\<lambda>j. if b + unat gfn \<le> j \<and> j \<le> b + unat (last_gfn mr)
               then pte_value mr (of_nat (j - b)) else m j) = m" by (auto simp: fun_eq_iff)
    then show ?thesis using False by (subst map_region_ptes.simps) simp
  qed
qed



lemma map_all_ptes_window:
  assumes "regions_below_1g mm"
  shows "\<exists>m'. map_all_ptes b mm m = Some m' \<and>
           (\<forall>j. (\<forall>r \<in> set mm. \<not> (b + unat (first_gfn r) \<le> j \<and> j \<le> b + unat (last_gfn r))) \<longrightarrow> m' j = m j) \<and>
           (regions_disjoint mm \<longrightarrow>
              (\<forall>r \<in> set mm. \<forall>j. b + unat (first_gfn r) \<le> j \<and> j \<le> b + unat (last_gfn r)
                  \<longrightarrow> m' j = pte_value r (of_nat (j - b))))"
  using assms
proof (induction mm arbitrary: m)
  case Nil
  show ?case by simp
next
  case (Cons mr mrs)
  have small: "last_gfn mr < 0x40000" and rest: "regions_below_1g mrs"
    using Cons.prems by (simp_all add: regions_below_1g_def)
  define m1 where "m1 = (\<lambda>j. if b + unat (first_gfn mr) \<le> j \<and> j \<le> b + unat (last_gfn mr)
               then pte_value mr (of_nat (j - b)) else m j)"
  have step: "map_region_ptes b mr (first_gfn mr) m = Some m1"
    unfolding m1_def by (rule map_region_ptes_window[OF small])
  from Cons.IH[OF rest, of m1] obtain m' where
    run: "map_all_ptes b mrs m1 = Some m'" and
    out: "\<And>j. (\<forall>r \<in> set mrs. \<not> (b + unat (first_gfn r) \<le> j \<and> j \<le> b + unat (last_gfn r))) \<Longrightarrow> m' j = m1 j" and
    ins: "regions_disjoint mrs \<Longrightarrow> (\<forall>r \<in> set mrs. \<forall>j. b + unat (first_gfn r) \<le> j \<and> j \<le> b + unat (last_gfn r)
                  \<longrightarrow> m' j = pte_value r (of_nat (j - b)))"
    by blast
  have 1: "map_all_ptes b (mr # mrs) m = Some m'" using step run by simp
  have 2: "m' j = m j"
    if "\<forall>r \<in> set (mr # mrs). \<not> (b + unat (first_gfn r) \<le> j \<and> j \<le> b + unat (last_gfn r))" for j
  proof -
    have "m' j = m1 j" using that by (intro out) simp
    also have "m1 j = m j" using that by (auto simp: m1_def)
    finally show ?thesis .
  qed
  have 3: "m' j = pte_value r (of_nat (j - b))"
    if d: "regions_disjoint (mr # mrs)" and r: "r \<in> set (mr # mrs)"
      and j: "b + unat (first_gfn r) \<le> j \<and> j \<le> b + unat (last_gfn r)" for r j
  proof (cases "r \<in> set mrs")
    case True
    have "regions_disjoint mrs" using d by (simp add: regions_disjoint_def)
    from ins[OF this] True j show ?thesis by blast
  next
    case False
    then have eq: "r = mr" using r by simp
    have "\<not> (b + unat (first_gfn r') \<le> j \<and> j \<le> b + unat (last_gfn r'))" if r': "r' \<in> set mrs" for r'
    proof -
      have "r' \<noteq> mr" using False eq r' by auto
      then have "last_gfn mr < first_gfn r' \<or> last_gfn r' < first_gfn mr"
        using d r' by (auto simp: regions_disjoint_def)
      then have "unat (last_gfn mr) < unat (first_gfn r') \<or> unat (last_gfn r') < unat (first_gfn mr)"
        by (simp add: word_less_nat_alt)
      then show ?thesis using j eq by auto
    qed
    then have "m' j = m1 j" by (intro out) blast
    also have "m1 j = pte_value r (of_nat (j - b))" using j eq by (simp add: m1_def)
    finally show ?thesis .
  qed
  show ?case using 1 2 3 by blast
qed



lemma entries_per_page_512: "entries_per_page = 512"
  by (simp add: entries_per_page_def X86_PAGE_SIZE_def)

lemma guest_pages_count: "IVEE_GUEST_PAGES_COUNT = 262144"
  by (simp add: IVEE_GUEST_PAGES_COUNT_def IVEE_GUEST_MEMORY_SIZE_def X86_PAGE_SHIFT_def drop_bit_eq_div unat_div)












subsection \<open>Success of \<open>ivee_load_executable\<close>\<close>

lemma errno_nonzero: "ENOMEM \<noteq> 0" "EINVAL \<noteq> 0" "ENOTSUP \<noteq> 0" "ENXIO \<noteq> 0"
  by (simp_all add: ENOMEM_def EINVAL_def ENOTSUP_def ENXIO_def)


lemma ivee_load_executable_success:
  assumes "ivee_load_executable e w ivee file format = Some (0, w', r)"
  shows "\<exists>w1 s1 s2. init_guest_page_table e w1 s1 = Some (0, w', s2) \<and>
           r = Some (s2\<lparr>x86_cpu := init_x86_cpu (x86_cpu s2)\<rparr>)"
  using assms
  by (auto simp: ivee_load_executable_def load_error_out_def ivee_free_memory_map_def Let_def errno_nonzero
        split: option.splits prod.splits if_splits)

lemma pml4_base: "IVEE_PML4_BASE_GPA = 0x3FDFD000"
  by (simp add: IVEE_PML4_BASE_GPA_def IVEE_GUEST_MEMORY_SIZE_def IVEE_PAGE_TABLE_SIZE_def X86_PAGE_SIZE_def)

lemma init_x86_cpu_regs:
  "rflags (init_x86_cpu c) = 0x2" "cr0 (init_x86_cpu c) = 0x80010001" "cr4 (init_x86_cpu c) = 0x20"
  "efer (init_x86_cpu c) = 0x500" "cr3 (init_x86_cpu c) = IVEE_PML4_BASE_GPA"
  by (simp_all add: init_x86_cpu_def Let_def)

lemma map_flat_image:
  "ivee_map_host_memory flat_env w [] 0x400000 0x1800 4 True {IVEE_READ, IVEE_EXEC}
     = (Some image_region,
        w\<lparr>host_maps := 0x7F0000000000 # host_maps w,
          hmem := (hmem w)(0x7F0000000000 := file_image flat_env)\<rparr>,
        [image_region])"
  by (simp add: ivee_map_host_memory_def flat_env_def image_region_def Let_def)

lemma map_flat_page_table:
  "ivee_map_host_memory flat_env w [image_region] IVEE_PML4_BASE_GPA IVEE_PAGE_TABLE_SIZE (- 1) False
       {IVEE_READ, IVEE_WRITE}
     = (Some page_table_region,
        w\<lparr>host_maps := 0x7F0000400000 # host_maps w,
          hmem := (hmem w)(0x7F0000400000 := (\<lambda>_. 0))\<rparr>,
        [image_region, page_table_region])"
  by (simp add: ivee_map_host_memory_def flat_env_def image_region_def page_table_region_def Let_def
        pml4_base IVEE_PAGE_TABLE_SIZE_def X86_PAGE_SIZE_def region_overlaps_def)

lemma flat_regions_ok:
  "regions_below_1g [image_region, page_table_region]"
  "regions_disjoint [image_region, page_table_region]"
  by (simp_all add: regions_below_1g_def regions_disjoint_def image_region_def page_table_region_def)

lemma flat_load_bin:
  "load_bin flat_env w created_ivee
     = (0, w\<lparr>host_maps := 0x7F0000000000 # host_maps w,
          hmem := (hmem w)(0x7F0000000000 := file_image flat_env)\<rparr>,
        created_ivee\<lparr>entry_addr := 0x400000, memory_map := [image_region]\<rparr>)"
proof -
  have "memory_map created_ivee = []" by (simp add: created_ivee_def zero_ivee_def)
  moreover have "stat_res flat_env = 0" "st_size flat_env = 0x1800" "open_res flat_env = 4"
    by (simp_all add: flat_env_def)
  ultimately show ?thesis by (simp add: load_bin_def map_flat_image)
qed

lemma init_guest_page_table_total:
  assumes mp: "ivee_map_host_memory e w (memory_map s) IVEE_PML4_BASE_GPA IVEE_PAGE_TABLE_SIZE (- 1) False
             {IVEE_READ, IVEE_WRITE} = (Some mr, w1, mm1)"
    and below: "regions_below_1g mm1"
  shows "\<exists>m5. init_guest_page_table e w s
           = Some (0, w1\<lparr>hmem := (hmem w1)(hva mr := m5)\<rparr>, s\<lparr>memory_map := mm1, gpt_mr := Some mr\<rparr>)"
proof -
  obtain m5 where "map_all_ptes 1536 mm1
        (memset_zero 1536 262144
           (write_pdes 1024 ((hmem w1 (hva mr))(0 := IVEE_PDPE_BASE_GPA OR X86_PTE_PRESENT,
                                      512 := IVEE_PDE_BASE_GPA OR X86_PTE_PRESENT)))) = Some m5"
    using map_all_ptes_window[OF below] by blast
  then have "init_guest_page_table e w s
           = Some (0, w1\<lparr>hmem := (hmem w1)(hva mr := m5)\<rparr>, s\<lparr>memory_map := mm1, gpt_mr := Some mr\<rparr>)"
    by (simp add: init_guest_page_table_def mp Let_def entries_per_page_512 X86_PTES_PER_PAGE_def
          guest_pages_count)
  then show ?thesis by (rule exI[where x = m5])
qed

lemma flat_load:
  "\<exists>w' s'. ivee_load_executable flat_env fresh_world (Some created_ivee) (Some ''guest.bin'') IVEE_EXEC_BIN
              = Some (0, w', Some s')
           \<and> memory_map s' = [image_region, page_table_region]
           \<and> gpt_mr s' = Some page_table_region"
proof -
  let ?w1 = "fresh_world\<lparr>host_maps := 0x7F0000000000 # host_maps fresh_world,
          hmem := (hmem fresh_world)(0x7F0000000000 := file_image flat_env)\<rparr>"
  let ?s1 = "created_ivee\<lparr>entry_addr := 0x400000, memory_map := [image_region]\<rparr>"
  have "memory_map ?s1 = [image_region]" by simp
  from init_guest_page_table_total[of flat_env ?w1 ?s1, unfolded this, OF map_flat_page_table flat_regions_ok(1)]
  obtain m5 where pt: "init_guest_page_table flat_env ?w1 ?s1
       = Some (0, ?w1\<lparr>host_maps := 0x7F0000400000 # host_maps ?w1,
                      hmem := (hmem ?w1)(0x7F0000400000 := (\<lambda>_. 0))\<rparr>
                    \<lparr>hmem := (hmem (?w1\<lparr>host_maps := 0x7F0000400000 # host_maps ?w1,
                      hmem := (hmem ?w1)(0x7F0000400000 := (\<lambda>_. 0))\<rparr>))(hva page_table_region := m5)\<rparr>,
               ?s1\<lparr>memory_map := [image_region, page_table_region], gpt_mr := Some page_table_region\<rparr>)"
    by blast
  have acc: "access_res flat_env = 0" "set_kvm_memory_map_res flat_env = (\<lambda>_. 0)"
    by (simp_all add: flat_env_def)
  show ?thesis
    by (simp add: ivee_load_executable_def flat_load_bin pt acc)
qed

subsection \<open>The identity map built by \<open>init_guest_page_table\<close>\<close>







subsection \<open>The boot CPU image\<close>

text \<open>
  C9. After every successful \<open>ivee_load_executable\<close> the boot CPU image of the session
  has \<open>rflags = 0x2\<close>, \<open>cr0 = 0x80010001\<close>, \<open>cr4 = 0x20\<close>,
  \<open>efer = 0x500\<close> and \<open>cr3 = IVEE_PML4_BASE_GPA\<close>, which is \<open>0x3FDFD000\<close>.
\<close>

theorem boot_cpu_image:
  assumes "ivee_load_executable e w ivee file format = Some (0, w', r)"
  shows "\<exists>s'. r = Some s' \<and> rflags (x86_cpu s') = 0x2 \<and> cr0 (x86_cpu s') = 0x80010001
           \<and> cr4 (x86_cpu s') = 0x20 \<and> efer (x86_cpu s') = 0x500
           \<and> cr3 (x86_cpu s') = IVEE_PML4_BASE_GPA \<and> IVEE_PML4_BASE_GPA = 0x3FDFD000"
proof -
  from ivee_load_executable_success[OF assms] obtain s2 where
    "r = Some (s2\<lparr>x86_cpu := init_x86_cpu (x86_cpu s2)\<rparr>)" by blast
  then show ?thesis by (simp add: init_x86_cpu_regs pml4_base)
qed


theorem boot_cpu_image_witness:
  "\<exists>w' s'. ivee_load_executable flat_env fresh_world (Some created_ivee) (Some ''guest.bin'') IVEE_EXEC_BIN
              = Some (0, w', Some s')
           \<and> rflags (x86_cpu s') = 0x2 \<and> cr0 (x86_cpu s') = 0x80010001
           \<and> cr4 (x86_cpu s') = 0x20 \<and> efer (x86_cpu s') = 0x500
           \<and> cr3 (x86_cpu s') = 0x3FDFD000"
proof -
  from flat_load obtain w' s' where
    l: "ivee_load_executable flat_env fresh_world (Some created_ivee) (Some ''guest.bin'') IVEE_EXEC_BIN
          = Some (0, w', Some s')" by blast
  from boot_cpu_image[OF l] show ?thesis using l by auto
qed

subsection \<open>The run loop\<close>

lemma handle_exit_eq:
  "handle_exit e s ex =
     (if exit_reason ex = IVEE_EXIT_IO \<and> port (io ex) = IVEE_PIO_EXIT_PORT e
      then (0, s\<lparr>should_terminate := True\<rparr>) else (- ENOTSUP, s))"
  by (cases "exit_reason ex") (simp_all add: handle_exit_def handle_pio_def)

lemma run_loop_once:
  "run_loop e w s =
     Some (if fst (kvm_run_res e (run_count w)) \<noteq> 0
           then (fst (kvm_run_res e (run_count w)), w\<lparr>run_count := Suc (run_count w)\<rparr>, s)
           else (fst (handle_exit e s (snd (kvm_run_res e (run_count w)))),
                 w\<lparr>run_count := Suc (run_count w)\<rparr>,
                 snd (handle_exit e s (snd (kvm_run_res e (run_count w))))))"
  by (subst run_loop.simps) (simp add: Let_def handle_exit_eq errno_nonzero)

lemma load_vcpu_state_fst: "fst (load_vcpu_state e s st) = kvm_load_vcpu_state_res e"
  by (simp add: load_vcpu_state_def)

lemma load_vcpu_state_flag:
  "should_terminate (snd (load_vcpu_state e s st)) = should_terminate s"
  by (simp add: load_vcpu_state_def)

lemma ivee_call_unrolled:
  "ivee_call e w (Some s) (Some st) =
     Some (let s1 = snd (load_vcpu_state e s st)
           in if kvm_load_vcpu_state_res e \<noteq> 0
              then (kvm_load_vcpu_state_res e, w, Some s1, Some st)
              else
                (let s2 = s1\<lparr>should_terminate := False\<rparr>;
                     r = kvm_run_res e (run_count w);
                     w1 = w\<lparr>run_count := Suc (run_count w)\<rparr>
                 in if fst r \<noteq> 0 then (fst r, w1, Some s2, Some st)
                    else if exit_reason (snd r) = IVEE_EXIT_IO
                              \<and> port (io (snd r)) = IVEE_PIO_EXIT_PORT e
                    then (case store_vcpu_state e (s2\<lparr>should_terminate := True\<rparr>) st of
                            (res3, s3, st') \<Rightarrow> (res3, w1, Some s3, Some st'))
                    else (- ENOTSUP, w1, Some s2, Some st)))"
proof -
  obtain a s1 where l: "load_vcpu_state e s st = (a, s1)" by (cases "load_vcpu_state e s st")
  have a: "a = kvm_load_vcpu_state_res e" using load_vcpu_state_fst[of e s st] l by simp
  show ?thesis
    by (simp add: ivee_call_def l a run_loop_once handle_exit_eq Let_def errno_nonzero
          split: prod.splits)
qed


subsection \<open>Exit dispatch\<close>

text \<open>
  C7. For every exit record delivered to the run loop: a PIO exit on
  \<open>IVEE_PIO_EXIT_PORT\<close> sets \<open>should_terminate\<close>, whatever byte was written, and
  the exit is consumed with status 0; a PIO exit on any other port yields
  \<open>-ENOTSUP\<close>; and every exit that is not PIO yields \<open>-ENOTSUP\<close>.
\<close>

theorem exit_dispatch:
  assumes "kvm_run_res e (run_count w) = (0, ex)"
  shows "(exit_reason ex = IVEE_EXIT_IO \<and> port (io ex) = IVEE_PIO_EXIT_PORT e \<longrightarrow>
            handle_pio e s (io ex) = (0, s\<lparr>should_terminate := True\<rparr>)
          \<and> handle_pio e s ((io ex)\<lparr>data := d\<rparr>) = handle_pio e s (io ex)
          \<and> run_loop e w s = Some (0, w\<lparr>run_count := Suc (run_count w)\<rparr>, s\<lparr>should_terminate := True\<rparr>))
       \<and> (exit_reason ex = IVEE_EXIT_IO \<and> port (io ex) \<noteq> IVEE_PIO_EXIT_PORT e \<longrightarrow>
            handle_pio e s (io ex) = (- ENOTSUP, s)
          \<and> run_loop e w s = Some (- ENOTSUP, w\<lparr>run_count := Suc (run_count w)\<rparr>, s))
       \<and> (exit_reason ex \<noteq> IVEE_EXIT_IO \<longrightarrow>
            handle_exit e s ex = (- ENOTSUP, s)
          \<and> run_loop e w s = Some (- ENOTSUP, w\<lparr>run_count := Suc (run_count w)\<rparr>, s))
       \<and> - ENOTSUP \<noteq> 0"
  using assms by (simp add: run_loop_once handle_exit_eq handle_pio_def errno_nonzero)

theorem exit_dispatch_witness:
  "run_loop flat_env fresh_world created_ivee
     = Some (0, fresh_world\<lparr>run_count := Suc (run_count fresh_world)\<rparr>,
             created_ivee\<lparr>should_terminate := True\<rparr>)
   \<and> run_loop other_port_env fresh_world created_ivee
     = Some (- ENOTSUP, fresh_world\<lparr>run_count := Suc (run_count fresh_world)\<rparr>, created_ivee)
   \<and> run_loop halt_env fresh_world created_ivee
     = Some (- ENOTSUP, fresh_world\<lparr>run_count := Suc (run_count fresh_world)\<rparr>, created_ivee)"
proof -
  have 1: "kvm_run_res flat_env (run_count fresh_world) = (0, pio_exit_on 0x78)"
    and 2: "kvm_run_res other_port_env (run_count fresh_world) = (0, pio_exit_on 0x60)"
    and 3: "kvm_run_res halt_env (run_count fresh_world)
              = (0, (pio_exit_on 0x78)\<lparr>exit_reason := IVEE_EXIT_HLT\<rparr>)"
    by (simp_all add: flat_env_def other_port_env_def halt_env_def)
  have p: "IVEE_PIO_EXIT_PORT flat_env = 0x78" "IVEE_PIO_EXIT_PORT other_port_env = 0x78"
    by (simp_all add: flat_env_def other_port_env_def)
  show ?thesis
    using exit_dispatch[OF 1, of created_ivee] exit_dispatch[OF 2, of created_ivee]
      exit_dispatch[OF 3, of created_ivee]
    by (simp add: p pio_exit_on_def)
qed

subsection \<open>NULL arguments\<close>

text \<open>
  C10. Every public entry point rejects NULL pointer arguments with \<open>-EINVAL\<close> and
  changes nothing: \<open>ivee_create\<close> with a NULL out pointer allocates nothing,
  \<open>ivee_load_executable\<close> with a NULL session or a NULL path leaves host and session
  as they were, and \<open>ivee_call\<close> with a NULL session or a NULL arch state does not
  enter the guest.
\<close>

theorem null_arguments_rejected:
  "ivee_create e w caps False = (- EINVAL, w, None)
   \<and> ivee_load_executable e w None file format = Some (- EINVAL, w, None)
   \<and> ivee_load_executable e w (Some s) None format = Some (- EINVAL, w, Some s)
   \<and> ivee_call e w None state = Some (- EINVAL, w, None, state)
   \<and> ivee_call e w (Some s) None = Some (- EINVAL, w, Some s, None)
   \<and> - EINVAL \<noteq> 0"
proof -
  have create: "ivee_create e w caps False = (- EINVAL, w, None)"
    by (simp add: ivee_create_def)
  have load: "ivee_load_executable e w None file format = Some (- EINVAL, w, None)"
    "ivee_load_executable e w (Some s) None format = Some (- EINVAL, w, Some s)"
    by (simp_all add: ivee_load_executable_def)
  have call: "ivee_call e w None state = Some (- EINVAL, w, None, state)"
    "ivee_call e w (Some s) None = Some (- EINVAL, w, Some s, None)"
    by (simp_all add: ivee_call_def)
  from create load call show ?thesis by (simp add: errno_nonzero)
qed

subsection \<open>The outcome of \<open>ivee_call\<close>\<close>

text \<open>
  C6, as amended. \<open>ivee_call\<close> always returns. Its status is the first failure among
  loading the vCPU, the guest entry, the exit dispatch (anything but a write to the exit
  port is \<open>-ENOTSUP\<close>) and reading the vCPU back; the guest is entered exactly once
  unless loading failed. \<open>should_terminate\<close> is set exactly when the guest was entered
  and left by a PIO exit on the exit port, whether reading the vCPU back then succeeds or
  fails (it is left as it was when loading failed). When the status is 0,
  \<open>rax, rbx, rcx, rdx, rsi, rdi, r8, ..., r15\<close> of the caller's arch state hold the
  values read back from the vCPU. When the status is not 0, reading back included, the
  caller's arch state is unchanged.
\<close>

theorem call_outcome:
  "\<exists>res w' s' st'.
     ivee_call e w (Some s) (Some st) = Some (res, w', Some s', Some st')
     \<and> res = (if kvm_load_vcpu_state_res e \<noteq> 0 then kvm_load_vcpu_state_res e
              else if fst (kvm_run_res e (run_count w)) \<noteq> 0 then fst (kvm_run_res e (run_count w))
              else if exit_reason (snd (kvm_run_res e (run_count w))) = IVEE_EXIT_IO
                        \<and> port (io (snd (kvm_run_res e (run_count w)))) = IVEE_PIO_EXIT_PORT e
              then kvm_store_vcpu_state_res e
              else - ENOTSUP)
     \<and> run_count w' = (if kvm_load_vcpu_state_res e \<noteq> 0 then run_count w else Suc (run_count w))
     \<and> should_terminate s'
           = (if kvm_load_vcpu_state_res e \<noteq> 0 then should_terminate s
              else fst (kvm_run_res e (run_count w)) = 0
                   \<and> exit_reason (snd (kvm_run_res e (run_count w))) = IVEE_EXIT_IO
                   \<and> port (io (snd (kvm_run_res e (run_count w)))) = IVEE_PIO_EXIT_PORT e)
     \<and> (res = 0 \<longrightarrow>
           should_terminate s'
         \<and> st_rax st' = rax (vcpu_after e) \<and> st_rbx st' = rbx (vcpu_after e)
         \<and> st_rcx st' = rcx (vcpu_after e) \<and> st_rdx st' = rdx (vcpu_after e)
         \<and> st_rsi st' = rsi (vcpu_after e) \<and> st_rdi st' = rdi (vcpu_after e)
         \<and> st_r8 st' = r8 (vcpu_after e) \<and> st_r9 st' = r9 (vcpu_after e)
         \<and> st_r10 st' = r10 (vcpu_after e) \<and> st_r11 st' = r11 (vcpu_after e)
         \<and> st_r12 st' = r12 (vcpu_after e) \<and> st_r13 st' = r13 (vcpu_after e)
         \<and> st_r14 st' = r14 (vcpu_after e) \<and> st_r15 st' = r15 (vcpu_after e))
     \<and> (res \<noteq> 0 \<longrightarrow> st' = st)"
proof (cases "kvm_load_vcpu_state_res e = 0")
  case False
  then show ?thesis by (simp add: ivee_call_unrolled Let_def load_vcpu_state_flag)
next
  case loaded: True
  show ?thesis
  proof (cases "fst (kvm_run_res e (run_count w)) = 0")
    case False
    with loaded show ?thesis by (simp add: ivee_call_unrolled Let_def)
  next
    case entered: True
    with loaded show ?thesis
      by (simp add: ivee_call_unrolled Let_def store_vcpu_state_def errno_nonzero)
  qed
qed

theorem call_outcome_witness:
  "call_status (ivee_call flat_env fresh_world (Some created_ivee) (Some zero_arch_state)) = Some 0
   \<and> map_option st_rax (call_arch_state
        (ivee_call flat_env fresh_world (Some created_ivee) (Some zero_arch_state))) = Some 0xDEADBEEF
   \<and> map_option should_terminate (call_session
        (ivee_call flat_env fresh_world (Some created_ivee) (Some zero_arch_state))) = Some True
   \<and> call_status (ivee_call other_port_env fresh_world (Some created_ivee) (Some zero_arch_state))
        = Some (- ENOTSUP)
   \<and> call_arch_state (ivee_call other_port_env fresh_world (Some created_ivee) (Some zero_arch_state))
        = Some zero_arch_state
   \<and> map_option should_terminate (call_session
        (ivee_call other_port_env fresh_world (Some created_ivee) (Some zero_arch_state))) = Some False"
proof -
  from call_outcome[of flat_env fresh_world created_ivee zero_arch_state]
  obtain res w' s' st' where
    1: "ivee_call flat_env fresh_world (Some created_ivee) (Some zero_arch_state)
          = Some (res, w', Some s', Some st')"
    and r1: "res = 0"
    and ok: "res = 0 \<longrightarrow> should_terminate s' \<and> st_rax st' = rax (vcpu_after flat_env)"
    by (auto simp: flat_env_def pio_exit_on_def)
  from call_outcome[of other_port_env fresh_world created_ivee zero_arch_state]
  obtain res2 w2 s2 st2 where
    2: "ivee_call other_port_env fresh_world (Some created_ivee) (Some zero_arch_state)
          = Some (res2, w2, Some s2, Some st2)"
    and r2: "res2 = - ENOTSUP"
    and ko: "res2 \<noteq> 0 \<longrightarrow> st2 = zero_arch_state"
    and fl: "\<not> should_terminate s2"
    by (auto simp: flat_env_def other_port_env_def pio_exit_on_def)
  have "rax (vcpu_after flat_env) = 0xDEADBEEF" by (simp add: flat_env_def)
  with 1 r1 ok 2 r2 ko fl show ?thesis
    by (simp add: call_status_def call_arch_state_def call_session_def errno_nonzero)
qed

text \<open>
  C6, as stated, fails when reading the vCPU back fails: \<open>should_terminate\<close> is set,
  yet the call returns the error and stores nothing.
\<close>

theorem call_store_failure_counterexample:
  "call_status (ivee_call store_fail_env fresh_world (Some created_ivee) (Some zero_arch_state))
     = Some (- EIO)
   \<and> map_option should_terminate (call_session
        (ivee_call store_fail_env fresh_world (Some created_ivee) (Some zero_arch_state))) = Some True
   \<and> call_arch_state (ivee_call store_fail_env fresh_world (Some created_ivee) (Some zero_arch_state))
     = Some zero_arch_state
   \<and> - EIO \<noteq> 0"
  by (simp add: ivee_call_unrolled Let_def store_vcpu_state_def store_fail_env_def flat_env_def
        pio_exit_on_def call_status_def call_arch_state_def call_session_def EIO_def)

subsection \<open>Registers stored back\<close>

text \<open>
  C2. After a successful \<open>ivee_call\<close> all fifteen registers of the caller's arch state
  should equal their post-guest values. \<open>store_vcpu_state\<close> has no assignment to
  \<open>state->rbp\<close>: here the guest leaves 1 in \<open>rbp\<close> and \<open>0xDEADBEEF\<close> in
  \<open>rax\<close>, the call returns 0, and the caller reads \<open>rax = 0xDEADBEEF\<close> but
  \<open>rbp = 0\<close>, the value it passed in.
\<close>

theorem rbp_not_stored:
  "call_status (ivee_call flat_env fresh_world (Some created_ivee) (Some zero_arch_state)) = Some 0
   \<and> call_arch_state (ivee_call flat_env fresh_world (Some created_ivee) (Some zero_arch_state))
        = Some (zero_arch_state\<lparr>st_rax := 0xDEADBEEF\<rparr>)
   \<and> rbp (vcpu_after flat_env) = 1
   \<and> st_rbp (zero_arch_state\<lparr>st_rax := 0xDEADBEEF\<rparr>) = 0"
  by (simp add: ivee_call_unrolled Let_def store_vcpu_state_def flat_env_def
        pio_exit_on_def call_status_def call_arch_state_def zero_arch_state_def zero_x86_cpu_def)

subsection \<open>\<open>ivee_destroy\<close>\<close>

text \<open>
  C4. \<open>ivee_destroy\<close> should release the VM handle, then every region of the memory
  map, then the session. It releases the handle and the session only: no host mapping is
  ever released by it, and the two mappings of a loaded session are still live after it.
  \<open>ivee_destroy(NULL)\<close> does nothing.
\<close>

theorem destroy_keeps_host_mappings:
  "host_maps (ivee_destroy w p) = host_maps w
   \<and> ivee_destroy w None = w
   \<and> ivee_destroy loaded_world (Some (0x5000, loaded_ivee)) = loaded_world\<lparr>heap := [], vms := []\<rparr>
   \<and> host_maps (ivee_destroy loaded_world (Some (0x5000, loaded_ivee)))
        = [0x7F0000400000, 0x7F0000000000]
   \<and> map hva (memory_map loaded_ivee) = [0x7F0000000000, 0x7F0000400000]"
  by (cases p)
     (auto simp: ivee_destroy_def ivee_free_def ivee_release_kvm_vm_def loaded_world_def
        loaded_ivee_def created_ivee_def zero_ivee_def fresh_world_def image_region_def
        page_table_region_def split: option.splits)


subsection \<open>What a load keeps\<close>

lemma set_insert_region: "set (insert_region mr mm) = insert mr (set mm)"
  by (induction mm) auto

lemma keeps_refl: "keeps w s w s"
  by (auto simp: keeps_def)

lemma keeps_errno: "keeps w s (w\<lparr>errno := x\<rparr>) s"
  by (auto simp: keeps_def)

lemma keeps_trans: "keeps w s w1 s1 \<Longrightarrow> keeps w1 s1 w2 s2 \<Longrightarrow> keeps w s w2 s2"
  by (simp add: keeps_def) blast

lemma map_host_memory_sets:
  "ivee_map_host_memory e w mm gpa sz fd ro pr = (r, w1, mm1) \<Longrightarrow>
     set mm \<subseteq> set mm1 \<and> set (host_maps w1) \<subseteq> set (host_maps w) \<union> hva ` set mm1"
  by (auto simp: ivee_map_host_memory_def Let_def set_insert_region
        split: if_splits option.splits)

lemma map_keeps:
  assumes "ivee_map_host_memory e w (memory_map s) gpa sz fd ro pr = (r, w1, mm1)"
    and "vm s1 = vm s" "x86_cpu s1 = x86_cpu s" "should_terminate s1 = should_terminate s"
    and "memory_map s1 = mm1"
  shows "keeps w s w1 s1"
  using map_host_memory_sets[OF assms(1)] assms(2-) by (simp add: keeps_def)

lemma load_bin_keeps: "load_bin e w s = (res, w1, s1) \<Longrightarrow> keeps w s w1 s1"
  apply (auto simp: load_bin_def Let_def keeps_refl keeps_errno
        split: if_splits prod.splits option.splits)
  by (erule map_keeps; simp)+

lemma load_phdrs_keeps: "load_phdrs e is w s = (r, w1, s1) \<Longrightarrow> keeps w s w1 s1"
proof (induction "is" arbitrary: w s)
  case Nil
  then show ?case by (simp add: keeps_refl)
next
  case (Cons i "is")
  show ?case
  proof (cases "getphdr_res e i")
    case None
    with Cons.prems show ?thesis by (simp add: keeps_refl)
  next
    case (Some phdr)
    show ?thesis
    proof (cases "p_type phdr \<noteq> PT_LOAD")
      case True
      with Cons Some show ?thesis by simp
    next
      case False
      obtain seg wm mm where m: "ivee_map_host_memory e w (memory_map s) (p_vaddr phdr) (p_memsz phdr)
                    (- 1) False (phdr_prot phdr) = (seg, wm, mm)" by (metis prod_cases3)
      have k1: "keeps w s wm (s\<lparr>memory_map := mm\<rparr>)" by (rule map_keeps[OF m]) simp_all
      show ?thesis
      proof (cases seg)
        case None
        with Cons.prems Some False m k1 show ?thesis by auto
      next
        case (Some segment_mr)
        let ?w2 = "wm\<lparr>errno := (if pread_res e (p_filesz phdr) (p_offset phdr) < 0 then sys_errno e else errno wm),
                              hmem := (hmem wm)(hva segment_mr :=
                                         pread_image e (p_filesz phdr) (p_offset phdr))\<rparr>"
        have k2: "keeps w s ?w2 (s\<lparr>memory_map := mm\<rparr>)" using k1 by (simp add: keeps_def)
        show ?thesis
        proof (cases "(word_of_int (pread_res e (p_filesz phdr) (p_offset phdr)) :: u64) \<noteq> p_filesz phdr")
          case True
          with Cons.prems \<open>getphdr_res e i = Some phdr\<close> False m Some k2 show ?thesis
            by (auto simp: Let_def)
        next
          case neq: False
          with Cons.prems \<open>getphdr_res e i = Some phdr\<close> False m Some
          have "load_phdrs e is ?w2 (s\<lparr>memory_map := mm\<rparr>) = (r, w1, s1)" by (simp add: Let_def)
          from keeps_trans[OF k2 Cons.IH[OF this]] show ?thesis .
        qed
      qed
    qed
  qed
qed

lemma load_elf64_keeps: "load_elf64 e w s = (res, w1, s1) \<Longrightarrow> keeps w s w1 s1"
  by (auto simp: load_elf64_def keeps_refl keeps_errno split: if_splits option.splits prod.splits
        dest!: load_phdrs_keeps) (auto simp: keeps_def)

lemma load_any_keeps: "load_any e w s = (res, w1, s1) \<Longrightarrow> keeps w s w1 s1"
  by (auto simp: load_any_def split: prod.splits if_splits
        dest: load_elf64_keeps load_bin_keeps intro: keeps_trans)

lemma init_guest_page_table_keeps:
  "init_guest_page_table e w s = Some (res, w1, s1) \<Longrightarrow> keeps w s w1 s1"
  by (auto simp: init_guest_page_table_def Let_def split: prod.splits option.splits
        dest!: map_host_memory_sets) (auto simp: keeps_def)


text \<open>
  The regions of a memory map stay pairwise disjoint: \<open>ivee_map_host_memory\<close> refuses
  a range that overlaps a region of the map, so a successful load of a session whose map
  was disjoint (empty, after \<open>ivee_create\<close>) leaves a disjoint map.
\<close>

lemma regions_disjoint_insert:
  assumes d: "regions_disjoint mm"
    and new: "\<forall>r \<in> set mm. last_gfn mr < first_gfn r \<or> last_gfn r < first_gfn mr"
  shows "regions_disjoint (insert_region mr mm)"
  unfolding regions_disjoint_def set_insert_region
proof (intro ballI impI)
  fix r r' assume r: "r \<in> insert mr (set mm)" and r': "r' \<in> insert mr (set mm)" and ne: "r \<noteq> r'"
  show "last_gfn r < first_gfn r' \<or> last_gfn r' < first_gfn r"
  proof (cases "r = mr")
    case True
    then have "r' \<in> set mm" using r' ne by auto
    with new True show ?thesis by blast
  next
    case False
    then have rm: "r \<in> set mm" using r by simp
    show ?thesis
    proof (cases "r' = mr")
      case True
      with new rm show ?thesis by blast
    next
      case False
      then have "r' \<in> set mm" using r' by simp
      with d rm ne show ?thesis by (simp add: regions_disjoint_def)
    qed
  qed
qed

lemma map_host_memory_disjoint:
  assumes m: "ivee_map_host_memory e w mm gpa sz fd ro pr = (r, w1, mm1)"
    and d: "regions_disjoint mm"
  shows "regions_disjoint mm1"
proof (cases r)
  case None
  with m have "mm1 = mm"
    by (auto simp: ivee_map_host_memory_def Let_def split: if_splits option.splits)
  with d show ?thesis by simp
next
  case (Some mr)
  define f where "f = unat gpa div 4096"
  define l where "l = f + (unat sz + 4095) div 4096 - 1"
  from m Some have l52: "l < 2 ^ 52" and pos: "(unat sz + 4095) div 4096 \<noteq> 0"
    and clear: "\<forall>x \<in> set mm. \<not> region_overlaps f l x"
    and mr: "first_gfn mr = of_nat f" "last_gfn mr = of_nat l"
    and mm1: "mm1 = insert_region mr mm"
    by (auto simp: ivee_map_host_memory_def Let_def f_def l_def split: if_splits option.splits)
  have fl: "f \<le> l" using pos by (simp add: l_def)
  have "l < 2 ^ 64" "f < 2 ^ 64"
    using l52 fl by (auto intro: less_trans[of _ "2 ^ 52"] le_less_trans)
  then have ul: "unat (of_nat l :: u64) = l" and uf: "unat (of_nat f :: u64) = f"
    by (simp_all add: unat_of_nat)
  have "\<forall>x \<in> set mm. last_gfn mr < first_gfn x \<or> last_gfn x < first_gfn mr"
    using clear by (auto simp: region_overlaps_def mr word_less_nat_alt ul uf)
  from regions_disjoint_insert[OF d this] show ?thesis by (simp add: mm1)
qed

lemma load_bin_disjoint:
  "load_bin e w s = (res, w1, s1) \<Longrightarrow> regions_disjoint (memory_map s)
     \<Longrightarrow> regions_disjoint (memory_map s1)"
  by (auto simp: load_bin_def Let_def split: if_splits prod.splits option.splits
        dest: map_host_memory_disjoint)

lemma load_phdrs_disjoint:
  "load_phdrs e is w s = (r, w1, s1) \<Longrightarrow> regions_disjoint (memory_map s)
     \<Longrightarrow> regions_disjoint (memory_map s1)"
proof (induction "is" arbitrary: w s)
  case Nil
  then show ?case by simp
next
  case (Cons i "is")
  show ?case
  proof (cases "getphdr_res e i")
    case None
    with Cons.prems show ?thesis by simp
  next
    case (Some phdr)
    show ?thesis
    proof (cases "p_type phdr \<noteq> PT_LOAD")
      case True
      with Cons Some show ?thesis by simp
    next
      case False
      obtain seg wm mm where m: "ivee_map_host_memory e w (memory_map s) (p_vaddr phdr) (p_memsz phdr)
                    (- 1) False (phdr_prot phdr) = (seg, wm, mm)" by (metis prod_cases3)
      have dm: "regions_disjoint mm" using map_host_memory_disjoint[OF m Cons.prems(2)] .
      show ?thesis
      proof (cases seg)
        case None
        with Cons.prems Some False m dm show ?thesis by auto
      next
        case seg: (Some segment_mr)
        show ?thesis
        proof (cases "(word_of_int (pread_res e (p_filesz phdr) (p_offset phdr)) :: u64) \<noteq> p_filesz phdr")
          case True
          with Cons.prems Some False m seg dm show ?thesis by (auto simp: Let_def)
        next
          case neq: False
          with Cons.prems Some False m seg obtain w2 where
            "load_phdrs e is w2 (s\<lparr>memory_map := mm\<rparr>) = (r, w1, s1)" by (simp add: Let_def)
          from Cons.IH[OF this] dm show ?thesis by simp
        qed
      qed
    qed
  qed
qed

lemma load_elf64_disjoint:
  "load_elf64 e w s = (res, w1, s1) \<Longrightarrow> regions_disjoint (memory_map s)
     \<Longrightarrow> regions_disjoint (memory_map s1)"
  by (auto simp: load_elf64_def split: if_splits option.splits prod.splits
        dest: load_phdrs_disjoint)

lemma load_any_disjoint:
  "load_any e w s = (res, w1, s1) \<Longrightarrow> regions_disjoint (memory_map s)
     \<Longrightarrow> regions_disjoint (memory_map s1)"
  by (auto simp: load_any_def split: prod.splits if_splits
        dest: load_elf64_disjoint load_bin_disjoint)

lemma init_guest_page_table_disjoint:
  "init_guest_page_table e w s = Some (res, w1, s1) \<Longrightarrow> regions_disjoint (memory_map s)
     \<Longrightarrow> regions_disjoint (memory_map s1)"
  by (auto simp: init_guest_page_table_def Let_def split: prod.splits option.splits
        dest: map_host_memory_disjoint)

lemma load_keeps_regions_disjoint:
  assumes run: "ivee_load_executable e w (Some s) file format = Some (0, w', Some s')"
    and d: "regions_disjoint (memory_map s)"
  shows "regions_disjoint (memory_map s')"
proof -
  obtain res1 w1 s1 where
    ld: "(case format of
            IVEE_EXEC_BIN \<Rightarrow> load_bin e w s
          | IVEE_EXEC_ELF64 \<Rightarrow> load_elf64 e w s
          | IVEE_EXEC_ANY \<Rightarrow> load_any e w s
          | IVEE_EXEC_OTHER \<Rightarrow> (- ENOTSUP, w, s)) = (res1, w1, s1)"
    by (metis prod_cases3)
  have d1: "regions_disjoint (memory_map s1)"
    using ld d by (cases format)
      (auto dest: load_bin_disjoint load_elf64_disjoint load_any_disjoint)
  from run ld obtain s2 where
    "init_guest_page_table e w1 s1 = Some (0, w', s2)" "memory_map s' = memory_map s2"
    by (auto simp: ivee_load_executable_def load_error_out_def ivee_free_memory_map_def Let_def
          errno_nonzero split: option.splits if_splits prod.splits)
  with init_guest_page_table_disjoint[OF _ d1] show ?thesis by simp
qed

subsection \<open>Failure of \<open>ivee_load_executable\<close>\<close>

lemma load_error_out_torn_down:
  assumes "keeps w s w1 s1" and "load_error_out res w1 s1 = (res', w', r)"
  shows "\<exists>s'. r = Some s' \<and> res' = res \<and> memory_map s' = []
           \<and> set (host_maps w') \<subseteq> set (host_maps w) - hva ` set (memory_map s)
           \<and> vm s' = vm s \<and> x86_cpu s' = x86_cpu s \<and> should_terminate s' = should_terminate s"
proof -
  from assms(2) have r: "r = Some (s1\<lparr>memory_map := []\<rparr>)" and res: "res' = res"
    and w': "host_maps w' = filter (\<lambda>h. h \<notin> hva ` set (memory_map s1)) (host_maps w1)"
    by (auto simp: load_error_out_def ivee_free_memory_map_def)
  have "set (host_maps w') \<subseteq> set (host_maps w) - hva ` set (memory_map s)"
    using assms(1) unfolding w' keeps_def by auto
  then show ?thesis using assms(1) r res by (simp add: keeps_def)
qed

lemma upt_two: "[0..<2] = [0, 1::nat]"
  by (simp add: upt_rec)

lemma io_error_load_elf64:
  "\<exists>w1. load_elf64 io_error_elf_env fresh_world created_ivee
     = (- EIO, w1, created_ivee\<lparr>memory_map := [text_region, data_region]\<rparr>)
     \<and> host_maps w1 = [0x7F0000C00000, 0x7F0000800000]"
  by (simp add: load_elf64_def io_error_elf_env_def elf_env_def flat_env_def EV_NONE_def
        ELFCLASS64_def ET_EXEC_def ET_DYN_def EM_X86_64_def upt_two text_phdr_def data_phdr_def
        PT_LOAD_def PF_X_def PF_R_def PF_W_def phdr_prot_def ivee_map_host_memory_def Let_def
        created_ivee_def zero_ivee_def fresh_world_def region_overlaps_def
        text_region_def data_region_def EIO_def insert_commute)


lemma short_read_load_elf64:
  "\<exists>w1. load_elf64 short_read_elf_env fresh_world created_ivee
     = (0, w1, created_ivee\<lparr>memory_map := [text_region, data_region]\<rparr>)"
  by (simp add: load_elf64_def short_read_elf_env_def elf_env_def flat_env_def EV_NONE_def
        ELFCLASS64_def ET_EXEC_def ET_DYN_def EM_X86_64_def upt_two text_phdr_def data_phdr_def
        PT_LOAD_def PF_X_def PF_R_def PF_W_def phdr_prot_def ivee_map_host_memory_def Let_def
        created_ivee_def zero_ivee_def fresh_world_def region_overlaps_def
        text_region_def data_region_def insert_commute)

text \<open>
  C5, as amended. When \<open>ivee_load_executable\<close>, past its argument checks, returns a
  nonzero status (the loader, the page-table builder or the installation of the memory
  map failed), the memory map of the session is empty, no host mapping obtained during the
  load or backing a region of the map is live any more, and the fields \<open>vm\<close>,
  \<open>x86_cpu\<close> and \<open>should_terminate\<close> are as they were before the call.
\<close>

theorem load_failure_tears_down:
  assumes run: "ivee_load_executable e w (Some s) (Some path) format = Some (res, w', r)"
    and acc: "access_res e = 0"
    and fail: "res \<noteq> 0"
  shows "\<exists>s'. r = Some s' \<and> memory_map s' = []
           \<and> set (host_maps w') \<subseteq> set (host_maps w) - hva ` set (memory_map s)
           \<and> vm s' = vm s \<and> x86_cpu s' = x86_cpu s \<and> should_terminate s' = should_terminate s"
proof -
  obtain res1 w1 s1 where
    ld: "(case format of
            IVEE_EXEC_BIN \<Rightarrow> load_bin e w s
          | IVEE_EXEC_ELF64 \<Rightarrow> load_elf64 e w s
          | IVEE_EXEC_ANY \<Rightarrow> load_any e w s
          | IVEE_EXEC_OTHER \<Rightarrow> (- ENOTSUP, w, s)) = (res1, w1, s1)"
    by (metis prod_cases3)
  have k1: "keeps w s w1 s1"
    using ld by (cases format)
      (auto dest: load_bin_keeps load_elf64_keeps load_any_keeps simp: keeps_refl)
  show ?thesis
  proof (cases "res1 \<noteq> 0")
    case True
    with run acc ld have "load_error_out res1 w1 s1 = (res, w', r)"
      by (simp add: ivee_load_executable_def)
    from load_error_out_torn_down[OF k1 this] show ?thesis by blast
  next
    case False
    then have z: "res1 = 0" by simp
    show ?thesis
    proof (cases "init_guest_page_table e w1 s1")
      case None
      with run acc ld z show ?thesis by (simp add: ivee_load_executable_def)
    next
      case (Some t)
      obtain res2 w2 s2 where t: "t = (res2, w2, s2)" by (metis prod_cases3)
      have k2: "keeps w s w2 s2"
        using keeps_trans[OF k1 init_guest_page_table_keeps] Some t by simp
      have "\<exists>r0. load_error_out r0 w2 s2 = (res, w', r)"
        using run acc ld z Some t fail
        by (auto simp: ivee_load_executable_def Let_def split: if_splits)
      then obtain r0 where "load_error_out r0 w2 s2 = (res, w', r)" ..
      from load_error_out_torn_down[OF k2 this] show ?thesis by blast
    qed
  qed
qed

theorem load_failure_tears_down_witness:
  "\<exists>w' s'. ivee_load_executable io_error_elf_env fresh_world (Some created_ivee) (Some ''guest.elf'')
              IVEE_EXEC_ELF64 = Some (- EIO, w', Some s')
      \<and> access_res io_error_elf_env = 0 \<and> - EIO \<noteq> 0
      \<and> memory_map s' = [] \<and> host_maps w' = []
      \<and> vm s' = Some 3 \<and> x86_cpu s' = zero_x86_cpu \<and> should_terminate s' = False"
proof -
  from io_error_load_elf64 obtain w1 where
    l: "load_elf64 io_error_elf_env fresh_world created_ivee
       = (- EIO, w1, created_ivee\<lparr>memory_map := [text_region, data_region]\<rparr>)" by blast
  have ne: "- EIO \<noteq> 0" by (simp add: EIO_def)
  have acc: "access_res io_error_elf_env = 0"
    by (simp add: io_error_elf_env_def elf_env_def flat_env_def)
  obtain w' r where
    run: "ivee_load_executable io_error_elf_env fresh_world (Some created_ivee) (Some ''guest.elf'')
              IVEE_EXEC_ELF64 = Some (- EIO, w', r)"
    using ne by (simp add: ivee_load_executable_def acc l load_error_out_def ivee_free_memory_map_def)
  from load_failure_tears_down[OF run acc ne] obtain s' where
    "r = Some s'" "memory_map s' = []"
    "set (host_maps w') \<subseteq> set (host_maps fresh_world) - hva ` set (memory_map created_ivee)"
    "vm s' = vm created_ivee" "x86_cpu s' = x86_cpu created_ivee"
    "should_terminate s' = should_terminate created_ivee" by blast
  then show ?thesis using run acc ne
    by (simp add: fresh_world_def created_ivee_def zero_ivee_def)
qed

text \<open>
  C5, as stated, fails for \<open>entry_addr\<close>: \<open>load_bin\<close> writes it before it maps the
  file, and the error path frees the memory map only. Here the host refuses the mapping.
\<close>

theorem load_failure_keeps_entry_addr_counterexample:
  "ivee_load_executable no_memory_env fresh_world (Some created_ivee) (Some ''guest.bin'') IVEE_EXEC_BIN
     = Some (- ENOMEM, fresh_world, Some (created_ivee\<lparr>entry_addr := 0x400000\<rparr>))
   \<and> - ENOMEM \<noteq> 0
   \<and> entry_addr created_ivee = 0
   \<and> entry_addr (created_ivee\<lparr>entry_addr := 0x400000\<rparr>) = 0x400000"
  by (simp add: ivee_load_executable_def load_bin_def no_memory_env_def flat_env_def
        ivee_map_host_memory_def Let_def load_error_out_def ivee_free_memory_map_def
        created_ivee_def zero_ivee_def fresh_world_def ENOMEM_def)

subsection \<open>The ELF loader\<close>

text \<open>
  C8. A short read of a LOAD segment should make \<open>load_elf64\<close> fail with a nonzero
  status. The status is \<open>-errno\<close>, and a read that returns fewer bytes than asked
  for does not set \<open>errno\<close>: with \<open>errno = 0\<close>, a file that ends \<open>0x800\<close> bytes
  into a segment of \<open>0x1000\<close> bytes makes \<open>load_elf64\<close> return 0, without
  recording the entry point.
\<close>

theorem short_read_reported_as_success:
  "fst (load_elf64 short_read_elf_env fresh_world created_ivee) = 0
   \<and> errno fresh_world = 0
   \<and> p_filesz data_phdr = 0x1000
   \<and> pread_res short_read_elf_env (p_filesz data_phdr) (p_offset data_phdr) = 0x800
   \<and> entry_addr (snd (snd (load_elf64 short_read_elf_env fresh_world created_ivee))) = 0
   \<and> map_option e_entry (getehdr_res short_read_elf_env) = Some 0x600000"
proof -
  from short_read_load_elf64 obtain w1 where
    "load_elf64 short_read_elf_env fresh_world created_ivee
       = (0, w1, created_ivee\<lparr>memory_map := [text_region, data_region]\<rparr>)" ..
  then show ?thesis
    by (simp add: fresh_world_def data_phdr_def short_read_elf_env_def elf_env_def flat_env_def
          created_ivee_def zero_ivee_def)
qed

text \<open>
  C3. With format AUTO, the flat-binary fallback should start from a memory map that holds
  no region of the failed ELF attempt. \<open>load_elf64\<close> leaves by \<open>error_out\<close>
  without dropping what it mapped, and \<open>load_any\<close> calls \<open>load_bin\<close> on that
  state: here the read of the second segment fails with \<open>EIO\<close>, \<open>load_bin\<close>
  starts with both ELF regions in the map, and they are still there when the load
  succeeds.
\<close>

theorem elf_regions_leak_into_fallback:
  "fst (load_elf64 io_error_elf_env fresh_world created_ivee) = - EIO
   \<and> - EIO \<noteq> 0
   \<and> memory_map (snd (snd (load_elf64 io_error_elf_env fresh_world created_ivee)))
        = [text_region, data_region]
   \<and> load_any io_error_elf_env fresh_world created_ivee
        = load_bin io_error_elf_env
            (fst (snd (load_elf64 io_error_elf_env fresh_world created_ivee)))
            (snd (snd (load_elf64 io_error_elf_env fresh_world created_ivee)))
   \<and> fst (load_any io_error_elf_env fresh_world created_ivee) = 0
   \<and> memory_map (snd (snd (load_any io_error_elf_env fresh_world created_ivee)))
        = [image_region, text_region, data_region]"
proof -
  from io_error_load_elf64 obtain w1 where
    l: "load_elf64 io_error_elf_env fresh_world created_ivee
       = (- EIO, w1, created_ivee\<lparr>memory_map := [text_region, data_region]\<rparr>)" by blast
  have ne: "- EIO \<noteq> 0" by (simp add: EIO_def)
  have a: "load_any io_error_elf_env fresh_world created_ivee
        = load_bin io_error_elf_env w1 (created_ivee\<lparr>memory_map := [text_region, data_region]\<rparr>)"
    using ne by (simp add: load_any_def l)
  have b: "\<exists>w2. load_bin io_error_elf_env w1 (created_ivee\<lparr>memory_map := [text_region, data_region]\<rparr>)
            = (0, w2, created_ivee\<lparr>memory_map := [image_region, text_region, data_region],
                                   entry_addr := 0x400000\<rparr>)"
    by (simp add: load_bin_def io_error_elf_env_def elf_env_def flat_env_def
          ivee_map_host_memory_def Let_def region_overlaps_def text_region_def data_region_def
          image_region_def created_ivee_def zero_ivee_def)
  then obtain w2 where b': "load_bin io_error_elf_env w1 (created_ivee\<lparr>memory_map := [text_region, data_region]\<rparr>)
            = (0, w2, created_ivee\<lparr>memory_map := [image_region, text_region, data_region],
                                   entry_addr := 0x400000\<rparr>)" ..
  show ?thesis using ne by (simp add: l a b')
qed


end
